theory Spec2Isabelle
  imports Complex_Main "HOL-Library.Sublist" "HOL-Library.AList" "HOL-Library.Word"
begin

unbundle bit_operations_syntax

section \<open>JavaScript values used by the server\<close>

text \<open>
  A JavaScript string is a sequence of UTF-16 code units; a code unit is modelled by its
  number. The operations the server applies to strings (\<open>===\<close>, \<open>startsWith\<close>,
  \<open>substring\<close>, \<open>includes\<close>, \<open>split\<close>) work code unit by code unit, and \<open>btoa\<close>
  rejects every code unit above 255, so the numbers are kept.
\<close>

type_synonym jsstring = "nat list"

definition js :: "string \<Rightarrow> jsstring" where
  "js s = map of_char s"

definition startsWith :: "jsstring \<Rightarrow> jsstring \<Rightarrow> bool" where
  "startsWith s p = prefix p s"

definition substring :: "jsstring \<Rightarrow> nat \<Rightarrow> jsstring" where
  "substring s n = drop n s"

text \<open>\<open>a || b\<close> on strings: the empty string is falsy.\<close>

definition or_else :: "jsstring \<Rightarrow> jsstring \<Rightarrow> jsstring" where
  "or_else a b = (if a = [] then b else a)"

text \<open>\<open>Array.prototype.includes\<close> and \<open>Array.prototype.join\<close> on arrays of strings.\<close>

definition arrayIncludes :: "jsstring list \<Rightarrow> jsstring \<Rightarrow> bool" where
  "arrayIncludes xs x = (x \<in> set xs)"

fun join :: "jsstring \<Rightarrow> jsstring list \<Rightarrow> jsstring" where
  "join sep [] = []"
| "join sep [x] = x"
| "join sep (x # y # ys) = x @ sep @ join sep (y # ys)"

text \<open>
  \<open>Array.prototype.findIndex\<close>: the index of the first element satisfying the predicate;
  \<open>None\<close> stands for the result \<open>-1\<close>.
\<close>

fun findIndex :: "('a \<Rightarrow> bool) \<Rightarrow> 'a list \<Rightarrow> nat option" where
  "findIndex P [] = None"
| "findIndex P (x # xs) =
     (if P x then Some 0 else map_option Suc (findIndex P xs))"

text \<open>\<open>xs.splice(index, 1)\<close>: the array without the element at \<open>index\<close>.\<close>

definition splice1 :: "nat \<Rightarrow> 'a list \<Rightarrow> 'a list" where
  "splice1 index xs = take index xs @ drop (Suc index) xs"

text \<open>
  A number is an IEEE double. The finite ones are modelled by the real they denote;
  timestamps, which the server produces with \<open>Date.now()\<close>, are integers.
\<close>

datatype jsnumber = Finite real | PosInfinity | NegInfinity | NaN

datatype json =
    JNull
  | JBool bool
  | JNumber jsnumber
  | JString jsstring
  | JArray "json list"
  | JObject "(jsstring \<times> json) list"

section \<open>Data model (types.ts)\<close>

record Project =
  p_id :: jsstring
  p_name :: jsstring
  p_description :: "jsstring option"
  p_basePath :: jsstring
  p_createdAt :: int
  p_updatedAt :: int

record EndpointResponse =
  r_status :: int
  r_headers :: "(jsstring \<times> jsstring) list"
  r_body :: json
  r_delay :: "int option"

record Endpoint =
  e_id :: jsstring
  e_projectId :: jsstring
  e_path :: jsstring
  e_method :: jsstring
  e_response :: EndpointResponse
  e_enabled :: bool
  e_createdAt :: int
  e_updatedAt :: int

record GlobalSettings =
  corsOrigins :: "jsstring list"
  corsHeaders :: "jsstring list"
  corsMethods :: "jsstring list"
  defaultHeaders :: "(jsstring \<times> jsstring) list"
  authEnabled :: bool

record StorageData =
  sd_projects :: "Project list"
  sd_endpoints :: "Endpoint list"
  sd_settings :: GlobalSettings

definition DEFAULT_SETTINGS :: GlobalSettings where
  "DEFAULT_SETTINGS =
     \<lparr> corsOrigins = [js ''*''],
       corsHeaders = [js ''Content-Type'', js ''Authorization'', js ''X-Requested-With''],
       corsMethods = [js ''GET'', js ''POST'', js ''PUT'', js ''DELETE'', js ''PATCH'', js ''OPTIONS''],
       defaultHeaders = [(js ''Content-Type'', js ''application/json'')],
       authEnabled = True \<rparr>"

text \<open>
  \<open>Partial<Project>\<close> and \<open>Partial<Endpoint>\<close>: every field may be absent. The update
  routes pass the parsed request body to the storage unchanged.
\<close>

record ProjectPatch =
  pp_id :: "jsstring option"
  pp_name :: "jsstring option"
  pp_description :: "jsstring option"
  pp_basePath :: "jsstring option"
  pp_createdAt :: "int option"
  pp_updatedAt :: "int option"

record EndpointPatch =
  ep_id :: "jsstring option"
  ep_projectId :: "jsstring option"
  ep_path :: "jsstring option"
  ep_method :: "jsstring option"
  ep_response :: "EndpointResponse option"
  ep_enabled :: "bool option"
  ep_createdAt :: "int option"
  ep_updatedAt :: "int option"

definition emptyProjectPatch :: ProjectPatch where
  "emptyProjectPatch =
     \<lparr> pp_id = None, pp_name = None, pp_description = None, pp_basePath = None,
       pp_createdAt = None, pp_updatedAt = None \<rparr>"

definition emptyEndpointPatch :: EndpointPatch where
  "emptyEndpointPatch =
     \<lparr> ep_id = None, ep_projectId = None, ep_path = None, ep_method = None,
       ep_response = None, ep_enabled = None, ep_createdAt = None, ep_updatedAt = None \<rparr>"

text \<open>
  Object spread \<open>{ ...existing, ...data }\<close>: a field present in \<open>data\<close> replaces the field
  of \<open>existing\<close>.
\<close>

definition overlay :: "'a \<Rightarrow> 'a option \<Rightarrow> 'a" where
  "overlay old new = (case new of None \<Rightarrow> old | Some v \<Rightarrow> v)"

definition spreadProject :: "Project \<Rightarrow> ProjectPatch \<Rightarrow> Project" where
  "spreadProject existing data =
     \<lparr> p_id = overlay (p_id existing) (pp_id data),
       p_name = overlay (p_name existing) (pp_name data),
       p_description =
         (case pp_description data of None \<Rightarrow> p_description existing | Some d \<Rightarrow> Some d),
       p_basePath = overlay (p_basePath existing) (pp_basePath data),
       p_createdAt = overlay (p_createdAt existing) (pp_createdAt data),
       p_updatedAt = overlay (p_updatedAt existing) (pp_updatedAt data) \<rparr>"

definition spreadEndpoint :: "Endpoint \<Rightarrow> EndpointPatch \<Rightarrow> Endpoint" where
  "spreadEndpoint existing data =
     \<lparr> e_id = overlay (e_id existing) (ep_id data),
       e_projectId = overlay (e_projectId existing) (ep_projectId data),
       e_path = overlay (e_path existing) (ep_path data),
       e_method = overlay (e_method existing) (ep_method data),
       e_response = overlay (e_response existing) (ep_response data),
       e_enabled = overlay (e_enabled existing) (ep_enabled data),
       e_createdAt = overlay (e_createdAt existing) (ep_createdAt data),
       e_updatedAt = overlay (e_updatedAt existing) (ep_updatedAt data) \<rparr>"

section \<open>MemoryStorage (storage/memory.ts)\<close>

text \<open>
  The storage object is the record \<open>StorageData\<close>; a method that mutates it returns the
  new record beside its result. \<open>now\<close> is the value of \<open>Date.now()\<close> at the call.
  Writing the file (\<open>save\<close>) does not change the record.
\<close>

definition Memory_updateProject ::
  "int \<Rightarrow> jsstring \<Rightarrow> ProjectPatch \<Rightarrow> StorageData \<Rightarrow> Project option \<times> StorageData" where
  "Memory_updateProject now ident data st =
     (case findIndex (\<lambda>p. p_id p = ident) (sd_projects st) of
        None \<Rightarrow> (None, st)
      | Some index \<Rightarrow>
          let updated = (spreadProject (sd_projects st ! index) data)
                          \<lparr> p_id := ident, p_updatedAt := now \<rparr>
          in (Some updated, st \<lparr> sd_projects := (sd_projects st)[index := updated] \<rparr>))"

definition Memory_deleteEndpointsByProject ::
  "jsstring \<Rightarrow> StorageData \<Rightarrow> nat \<times> StorageData" where
  "Memory_deleteEndpointsByProject projectId st =
     (let before = length (sd_endpoints st);
          st' = st \<lparr> sd_endpoints := filter (\<lambda>e. e_projectId e \<noteq> projectId) (sd_endpoints st) \<rparr>
      in (before - length (sd_endpoints st'), st'))"

definition Memory_deleteProject :: "jsstring \<Rightarrow> StorageData \<Rightarrow> bool \<times> StorageData" where
  "Memory_deleteProject ident st =
     (case findIndex (\<lambda>p. p_id p = ident) (sd_projects st) of
        None \<Rightarrow> (False, st)
      | Some index \<Rightarrow>
          let st1 = st \<lparr> sd_projects := splice1 index (sd_projects st) \<rparr>;
              st2 = snd (Memory_deleteEndpointsByProject ident st1)
          in (True, st2))"

text \<open>
  \<open>getEndpoints(projectId?)\<close> tests \<open>if (projectId)\<close>: an absent argument and the empty
  string both select every endpoint.
\<close>

definition Memory_getEndpoints :: "jsstring option \<Rightarrow> StorageData \<Rightarrow> Endpoint list" where
  "Memory_getEndpoints projectId st =
     (case projectId of
        None \<Rightarrow> sd_endpoints st
      | Some pid \<Rightarrow>
          if pid \<noteq> [] then filter (\<lambda>e. e_projectId e = pid) (sd_endpoints st)
          else sd_endpoints st)"

text \<open>
  The first statement of \<open>getEndpointByPath\<close>, the same in both storages:
  \<open>projects.find((p) => fullPath.startsWith(p.basePath))\<close>.
\<close>

definition matchingProject :: "jsstring \<Rightarrow> Project list \<Rightarrow> Project option" where
  "matchingProject fullPath ps = find (\<lambda>p. startsWith fullPath (p_basePath p)) ps"

definition Memory_getEndpointByPath ::
  "jsstring \<Rightarrow> jsstring \<Rightarrow> jsstring \<Rightarrow> StorageData \<Rightarrow> Endpoint option" where
  "Memory_getEndpointByPath fullPath subPath method st =
     (case matchingProject fullPath (sd_projects st) of
        None \<Rightarrow> None
      | Some project \<Rightarrow>
          let relativePath =
                or_else (substring fullPath (length (p_basePath project))) (js ''/'')
          in find (\<lambda>e. e_projectId e = p_id project \<and> e_path e = relativePath \<and>
                         e_method e = method \<and> e_enabled e)
                  (sd_endpoints st))"

definition Memory_updateEndpoint ::
  "int \<Rightarrow> jsstring \<Rightarrow> EndpointPatch \<Rightarrow> StorageData \<Rightarrow> Endpoint option \<times> StorageData" where
  "Memory_updateEndpoint now ident data st =
     (case findIndex (\<lambda>e. e_id e = ident) (sd_endpoints st) of
        None \<Rightarrow> (None, st)
      | Some index \<Rightarrow>
          let updated = (spreadEndpoint (sd_endpoints st ! index) data)
                          \<lparr> e_id := ident, e_updatedAt := now \<rparr>
          in (Some updated, st \<lparr> sd_endpoints := (sd_endpoints st)[index := updated] \<rparr>))"

definition Memory_getSettings :: "StorageData \<Rightarrow> GlobalSettings" where
  "Memory_getSettings st = sd_settings st"

section \<open>KVStorage (storage/kv.ts)\<close>

text \<open>
  The key-value namespace holds the JSON text of the project array, of the endpoint
  array and of the settings under three keys; a key may be absent. The arrays are
  modelled as parsed.
\<close>

record KVData =
  kv_projects :: "Project list option"
  kv_endpoints :: "Endpoint list option"
  kv_settings :: "GlobalSettings option"

definition KV_getProjects :: "KVData \<Rightarrow> Project list" where
  "KV_getProjects kv = (case kv_projects kv of None \<Rightarrow> [] | Some ps \<Rightarrow> ps)"

definition KV_getEndpoints :: "jsstring option \<Rightarrow> KVData \<Rightarrow> Endpoint list" where
  "KV_getEndpoints projectId kv =
     (let es = (case kv_endpoints kv of None \<Rightarrow> [] | Some es \<Rightarrow> es)
      in case projectId of
           None \<Rightarrow> es
         | Some pid \<Rightarrow> if pid \<noteq> [] then filter (\<lambda>e. e_projectId e = pid) es else es)"

definition KV_getEndpointByPath ::
  "jsstring \<Rightarrow> jsstring \<Rightarrow> jsstring \<Rightarrow> KVData \<Rightarrow> Endpoint option" where
  "KV_getEndpointByPath basePath path method kv =
     (let es = KV_getEndpoints None kv;
          ps = KV_getProjects kv
      in case matchingProject basePath ps of
           None \<Rightarrow> None
         | Some project \<Rightarrow>
             let relativePath = substring basePath (length (p_basePath project)) @ path
             in find (\<lambda>e. e_projectId e = p_id project \<and> e_path e = relativePath \<and>
                            e_method e = method \<and> e_enabled e)
                     es)"

text \<open>
  The resolution as the specification words it (section 4.2, step 1): among the Projects
  whose basePath is a prefix of the request path the one with the longest basePath, the
  one stored first among equally long ones.
\<close>

fun longestMatch_spec :: "jsstring \<Rightarrow> Project list \<Rightarrow> Project option" where
  "longestMatch_spec fullPath [] = None"
| "longestMatch_spec fullPath (p # ps) =
     (case longestMatch_spec fullPath ps of
        None \<Rightarrow> if startsWith fullPath (p_basePath p) then Some p else None
      | Some q \<Rightarrow>
          if startsWith fullPath (p_basePath p) \<and>
             length (p_basePath q) \<le> length (p_basePath p)
          then Some p else Some q)"

section \<open>CORS middleware (middleware/cors.ts)\<close>

text \<open>
  What a middleware sees of Hono's context: the request (its method, its path and the
  value of its \<open>Origin\<close> header when it has one) and the response headers set so far
  with \<open>c.header\<close>, which replaces the value of a header already set.
\<close>

record Request =
  req_method :: jsstring
  req_path :: jsstring
  req_origin :: "jsstring option"

record Context =
  req :: Request
  resHeaders :: "(jsstring \<times> jsstring) list"

datatype body = NoBody | TextBody jsstring | JsonBody json

text \<open>
  A response: its status, its body, and the milliseconds the handler waited before it
  answered (the configured delay of a mock endpoint).
\<close>

record Response =
  res_status :: int
  res_body :: body
  res_delayed :: int

definition header :: "jsstring \<Rightarrow> jsstring \<Rightarrow> Context \<Rightarrow> Context" where
  "header k v c = c \<lparr> resHeaders := AList.update k v (resHeaders c) \<rparr>"

definition text_response :: "jsstring \<Rightarrow> int \<Rightarrow> Response" where
  "text_response t code = \<lparr> res_status = code, res_body = TextBody t, res_delayed = 0 \<rparr>"

definition json_response :: "json \<Rightarrow> int \<Rightarrow> Response" where
  "json_response v code = \<lparr> res_status = code, res_body = JsonBody v, res_delayed = 0 \<rparr>"

text \<open>\<open>new Response(null, { status: 204 })\<close>\<close>

definition empty_response :: "int \<Rightarrow> Response" where
  "empty_response code = \<lparr> res_status = code, res_body = NoBody, res_delayed = 0 \<rparr>"

text \<open>\<open>c.req.header('Origin') || '*'\<close>: an absent header and an empty one both give \<open>*\<close>.\<close>

definition requestOrigin :: "Context \<Rightarrow> jsstring" where
  "requestOrigin c =
     (case req_origin (req c) of None \<Rightarrow> js ''*'' | Some v \<Rightarrow> or_else v (js ''*''))"

text \<open>
  A handler maps the context to the context it leaves and the response it gives. A
  middleware takes the rest of the chain, \<open>next\<close>, as an argument: where the source
  runs \<open>await next()\<close> and returns nothing, the response is the one \<open>next\<close> gives.
\<close>

type_synonym handler = "Context \<Rightarrow> Context \<times> Response"

text \<open>
  Dynamic CORS. \<open>getSettings\<close> is called on every request; \<open>settings\<close> is what it
  returns for this one.
\<close>

definition corsMiddleware :: "GlobalSettings \<Rightarrow> handler \<Rightarrow> handler" where
  "corsMiddleware settings next c =
     (let origin = requestOrigin c;
          isAllowed = (arrayIncludes (corsOrigins settings) (js ''*'') \<or>
                       arrayIncludes (corsOrigins settings) origin)
      in if \<not> isAllowed then (c, text_response (js ''Origin not allowed'') 403)
         else
           let allowedOrigin =
                 (if arrayIncludes (corsOrigins settings) (js ''*'') then js ''*'' else origin);
               c1 = header (js ''Access-Control-Allow-Origin'') allowedOrigin c;
               c2 = header (js ''Access-Control-Allow-Methods'')
                      (join (js '', '') (corsMethods settings)) c1;
               c3 = header (js ''Access-Control-Allow-Headers'')
                      (join (js '', '') (corsHeaders settings)) c2;
               c4 = header (js ''Access-Control-Max-Age'') (js ''86400'') c3;
               c5 = (if allowedOrigin \<noteq> js ''*''
                     then header (js ''Access-Control-Allow-Credentials'') (js ''true'') c4
                     else c4)
           in if req_method (req c) = js ''OPTIONS'' then (c5, empty_response 204)
              else next c5)"

text \<open>
  Static CORS. The options object: an absent field takes its default; \<open>credentials\<close>
  is never read.
\<close>

record CORSOptions =
  opt_origins :: "jsstring list option"
  opt_methods :: "jsstring list option"
  opt_headers :: "jsstring list option"
  opt_credentials :: "bool option"
  opt_maxAge :: "nat option"

definition noOptions :: CORSOptions where
  "noOptions =
     \<lparr> opt_origins = None, opt_methods = None, opt_headers = None,
       opt_credentials = None, opt_maxAge = None \<rparr>"

text \<open>\<open>String(n)\<close> for a natural number: its decimal digits.\<close>

fun decimal :: "nat \<Rightarrow> jsstring" where
  "decimal n = (if n < 10 then [48 + n] else decimal (n div 10) @ [48 + n mod 10])"

declare decimal.simps [simp del]

definition staticCorsMiddleware :: "CORSOptions \<Rightarrow> handler \<Rightarrow> handler" where
  "staticCorsMiddleware options next c =
     (let origins = overlay [js ''*''] (opt_origins options);
          methods = overlay [js ''GET'', js ''POST'', js ''PUT'', js ''DELETE'', js ''OPTIONS'']
                      (opt_methods options);
          headers = overlay [js ''Content-Type'', js ''Authorization''] (opt_headers options);
          maxAge = overlay 86400 (opt_maxAge options);
          origin = requestOrigin c;
          allowedOrigin =
            (if arrayIncludes origins (js ''*'') then Some (js ''*'')
             else if arrayIncludes origins origin then Some origin else None);
          c' = (case allowedOrigin of
                  None \<Rightarrow> c
                | Some allowed \<Rightarrow>
                    if allowed = [] then c
                    else
                      let c1 = header (js ''Access-Control-Allow-Origin'') allowed c;
                          c2 = header (js ''Access-Control-Allow-Methods'')
                                 (join (js '', '') methods) c1;
                          c3 = header (js ''Access-Control-Allow-Headers'')
                                 (join (js '', '') headers) c2;
                          c4 = header (js ''Access-Control-Max-Age'') (decimal maxAge) c3
                      in if allowed \<noteq> js ''*''
                         then header (js ''Access-Control-Allow-Credentials'') (js ''true'') c4
                         else c4)
      in if req_method (req c) = js ''OPTIONS'' then (c', empty_response 204)
         else next c')"

section \<open>The mock responder (the catch-all route of the Node entry point)\<close>

text \<open>\<open>for (const [key, value] of Object.entries(hs)) c.header(key, value)\<close>\<close>

definition applyHeaders :: "(jsstring \<times> jsstring) list \<Rightarrow> Context \<Rightarrow> Context" where
  "applyHeaders hs c = foldl (\<lambda>c' (k, v). header k v c') c hs"

definition reservedPath :: "jsstring \<Rightarrow> bool" where
  "reservedPath path \<longleftrightarrow>
     startsWith path (js ''/api/admin'') \<or> path = js ''/index.html'' \<or>
     path = js ''/app.js'' \<or> path = js ''/json-editor.js'' \<or> path = js ''/style.css'' \<or>
     path = js ''/favicon.ico'' \<or> path = js ''/''"

definition notFound :: Response where
  "notFound = text_response (js ''404 Not Found'') 404"

definition mockCatchAll :: "StorageData \<Rightarrow> handler" where
  "mockCatchAll storage c =
     (let path = req_path (req c);
          method = req_method (req c)
      in if reservedPath path then (c, notFound)
         else
           let settings = Memory_getSettings storage
           in case Memory_getEndpointByPath path [] method storage of
                None \<Rightarrow>
                  (applyHeaders (defaultHeaders settings) c,
                   json_response
                     (JObject
                        [(js ''error'', JString (js ''Not Found'')),
                         (js ''message'',
                          JString (js ''No mock endpoint configured for '' @ method @
                                   js '' '' @ path))])
                     404)
              | Some endpoint \<Rightarrow>
                  let waited = (case r_delay (e_response endpoint) of
                                  None \<Rightarrow> 0
                                | Some d \<Rightarrow> if d > 0 then d else 0);
                      c1 = applyHeaders (defaultHeaders settings) c;
                      c2 = applyHeaders (r_headers (e_response endpoint)) c1
                  in (c2, (json_response (r_body (e_response endpoint))
                             (r_status (e_response endpoint))) \<lparr> res_delayed := waited \<rparr>))"

text \<open>
  Mock traffic in the Node entry point: \<open>app.use('*', corsMiddleware(getSettings))\<close>
  before \<open>app.all('*', ...)\<close>, the settings read from the storage on the request.
\<close>

definition mockRoute :: "StorageData \<Rightarrow> handler" where
  "mockRoute storage c =
     corsMiddleware (Memory_getSettings storage) (mockCatchAll storage) c"

section \<open>The catch-all route of the Workers entry point\<close>

text \<open>
  The catch-all route of the Workers entry point, for the paths that are not under
  \<open>/mock\<close>: it decides CORS itself, sets the headers when the origin is allowed, and
  goes on in either case. \<open>getEndpointByPath\<close> is the method of the storage in use.
\<close>

definition workerFallback ::
  "GlobalSettings \<Rightarrow> (jsstring \<Rightarrow> jsstring \<Rightarrow> jsstring \<Rightarrow> Endpoint option) \<Rightarrow> handler" where
  "workerFallback cfg getEndpointByPath c =
     (let path = req_path (req c)
      in if startsWith path (js ''/api/admin'') then (c, notFound)
         else
           let origin = requestOrigin c;
               isAllowed = (arrayIncludes (corsOrigins cfg) (js ''*'') \<or>
                            arrayIncludes (corsOrigins cfg) origin);
               c1 = (if isAllowed then
                       let allowedOrigin =
                             (if arrayIncludes (corsOrigins cfg) (js ''*'') then js ''*''
                              else origin);
                           h1 = header (js ''Access-Control-Allow-Origin'') allowedOrigin c;
                           h2 = header (js ''Access-Control-Allow-Methods'')
                                  (join (js '', '') (corsMethods cfg)) h1
                       in header (js ''Access-Control-Allow-Headers'')
                            (join (js '', '') (corsHeaders cfg)) h2
                     else c)
           in if req_method (req c) = js ''OPTIONS'' then (c1, empty_response 204)
              else
                case getEndpointByPath path [] (req_method (req c)) of
                  None \<Rightarrow>
                    (applyHeaders (defaultHeaders cfg) c1,
                     json_response
                       (JObject
                          [(js ''error'', JString (js ''Not Found'')),
                           (js ''message'',
                            JString (js ''No mock endpoint configured for '' @
                                     req_method (req c) @ js '' '' @ path))])
                       404)
                | Some endpoint \<Rightarrow>
                    let waited = (case r_delay (e_response endpoint) of
                                    None \<Rightarrow> 0
                                  | Some d \<Rightarrow> if d > 0 then d else 0);
                        c2 = applyHeaders (defaultHeaders cfg) c1;
                        c3 = applyHeaders (r_headers (e_response endpoint)) c2
                    in (c3, (json_response (r_body (e_response endpoint))
                               (r_status (e_response endpoint))) \<lparr> res_delayed := waited \<rparr>))"

section \<open>Platform functions of the token service\<close>

text \<open>
  \<open>auth.ts\<close> builds on functions of the JavaScript platform: \<open>split\<close>, \<open>btoa\<close>,
  \<open>atob\<close>, \<open>TextEncoder\<close>, \<open>crypto.subtle\<close> (HMAC with SHA-256), \<open>JSON.stringify\<close> and
  \<open>JSON.parse\<close>, and on the arithmetic of Numbers. They are modelled from their
  standards, each failure (a thrown exception) as \<open>None\<close>; \<open>JSON.parse\<close>, the conversion
  of a non-numeric value to a number and the text of a Number above \<open>2^53\<close> stay
  parameters.
\<close>

subsection \<open>Numbers\<close>

text \<open>
  The numbers of the token service are integral: \<open>Date.now()\<close> is an integral time value
  of at most \<open>8.64 * 10^15\<close> in absolute value, for which \<open>Math.floor(Date.now() / 1000)\<close>
  is the exact quotient rounded down, and \<open>expiresIn\<close> is a count of seconds. A Number
  (an IEEE 754 double) holds an integer exactly when the integer has at most 53
  significant bits, hence every integer up to \<open>2^53\<close> in absolute value. The sum of two
  Numbers is the Number nearest to the exact sum and, of two Numbers equally near, the
  one whose significand is even. \<open>Number_nearest\<close> is that rounding of an integer. The
  sum of a time in seconds and a Number stays below the bound from which a sum is
  Infinity, so the rounding of an integer is all that \<open>now + expiresIn\<close> needs.
\<close>

fun bitLength :: "nat \<Rightarrow> nat" where
  "bitLength n = (if n = 0 then 0 else Suc (bitLength (n div 2)))"

declare bitLength.simps [simp del]

definition Number_nearest :: "int \<Rightarrow> int" where
  "Number_nearest x =
     (let a = \<bar>x\<bar>;
          e = bitLength (nat a) - 53;
          q = a div 2 ^ e;
          r = a mod 2 ^ e;
          q' = (if 2 ^ e < 2 * r \<or> (2 * r = 2 ^ e \<and> odd q) then q + 1 else q)
      in sgn x * (q' * 2 ^ e))"

text \<open>\<open>a + b\<close> for two integral Numbers.\<close>

definition Number_add :: "int \<Rightarrow> int \<Rightarrow> int" where
  "Number_add a b = Number_nearest (a + b)"

subsection \<open>Strings\<close>

text \<open>\<open>s.split(sep)\<close> for a separator of one code unit.\<close>

fun js_split :: "nat \<Rightarrow> jsstring \<Rightarrow> jsstring list" where
  "js_split sep [] = [[]]"
| "js_split sep (c # cs) =
     (if c = sep then [] # js_split sep cs
      else case js_split sep cs of
             [] \<Rightarrow> [[c]]
           | part # parts \<Rightarrow> (c # part) # parts)"

text \<open>\<open>s.replace(/x/g, 'y')\<close> for single code units, and \<open>s.replace(/=+$/, '')\<close>.\<close>

definition replaceAll :: "nat \<Rightarrow> nat \<Rightarrow> jsstring \<Rightarrow> jsstring" where
  "replaceAll x y s = map (\<lambda>c. if c = x then y else c) s"

definition stripTrailingEquals :: "jsstring \<Rightarrow> jsstring" where
  "stripTrailingEquals s = rev (dropWhile (\<lambda>c. c = 61) (rev s))"

subsection \<open>Base64 (\<open>btoa\<close>, \<open>atob\<close>)\<close>

text \<open>
  The base64 alphabet: \<open>A\<close> to \<open>Z\<close> (65 to 90), \<open>a\<close> to \<open>z\<close> (97 to 122), \<open>0\<close> to
  \<open>9\<close> (48 to 57), \<open>+\<close> (43) and \<open>/\<close> (47); \<open>=\<close> (61) pads.
\<close>

definition b64char :: "nat \<Rightarrow> nat" where
  "b64char n =
     (if n < 26 then 65 + n
      else if n < 52 then 97 + (n - 26)
      else if n < 62 then 48 + (n - 52)
      else if n = 62 then 43
      else 47)"

definition b64val :: "nat \<Rightarrow> nat option" where
  "b64val c =
     (if 65 \<le> c \<and> c \<le> 90 then Some (c - 65)
      else if 97 \<le> c \<and> c \<le> 122 then Some (c - 97 + 26)
      else if 48 \<le> c \<and> c \<le> 57 then Some (c - 48 + 52)
      else if c = 43 then Some 62
      else if c = 47 then Some 63
      else None)"

fun b64_encode :: "nat list \<Rightarrow> jsstring" where
  "b64_encode (a # b # c # rest) =
     [b64char (a div 4), b64char ((a mod 4) * 16 + b div 16),
      b64char ((b mod 16) * 4 + c div 64), b64char (c mod 64)] @ b64_encode rest"
| "b64_encode [a, b] =
     [b64char (a div 4), b64char ((a mod 4) * 16 + b div 16), b64char ((b mod 16) * 4), 61]"
| "b64_encode [a] = [b64char (a div 4), b64char ((a mod 4) * 16), 61, 61]"
| "b64_encode [] = []"

text \<open>\<open>btoa\<close> throws InvalidCharacterError when a code unit is above 255.\<close>

definition btoa :: "jsstring \<Rightarrow> jsstring option" where
  "btoa s = (if list_all (\<lambda>c. c \<le> 255) s then Some (b64_encode s) else None)"

text \<open>
  \<open>atob\<close> is the forgiving base64 decoding of the HTML standard: ASCII whitespace is
  removed; if the length is then a multiple of 4, one or two \<open>=\<close> at the end are
  removed; a length that leaves the remainder 1, or a code unit outside the alphabet, is
  an error; every code unit gives six bits, and the bits left over at the end are
  dropped.
\<close>

definition asciiWhitespace :: "nat \<Rightarrow> bool" where
  "asciiWhitespace c \<longleftrightarrow> c = 9 \<or> c = 10 \<or> c = 12 \<or> c = 13 \<or> c = 32"

definition stripPadding :: "jsstring \<Rightarrow> jsstring" where
  "stripPadding d =
     (if d \<noteq> [] \<and> last d = 61
      then (if butlast d \<noteq> [] \<and> last (butlast d) = 61 then butlast (butlast d)
            else butlast d)
      else d)"

fun b64_decode :: "nat list \<Rightarrow> nat list" where
  "b64_decode (w # x # y # z # rest) =
     [w * 4 + x div 16, (x mod 16) * 16 + y div 4, (y mod 4) * 64 + z] @ b64_decode rest"
| "b64_decode [w, x, y] = [w * 4 + x div 16, (x mod 16) * 16 + y div 4]"
| "b64_decode [w, x] = [w * 4 + x div 16]"
| "b64_decode [w] = []"
| "b64_decode [] = []"

definition atob :: "jsstring \<Rightarrow> jsstring option" where
  "atob input =
     (let d1 = filter (\<lambda>c. \<not> asciiWhitespace c) input;
          d2 = (if length d1 mod 4 = 0 then stripPadding d1 else d1)
      in if length d2 mod 4 = 1 then None
         else if list_ex (\<lambda>c. b64val c = None) d2 then None
         else Some (b64_decode (map (\<lambda>c. case b64val c of None \<Rightarrow> 0 | Some v \<Rightarrow> v) d2)))"

subsection \<open>\<open>TextEncoder\<close>: UTF-8\<close>

text \<open>
  A surrogate pair encodes one code point in four bytes; a lone surrogate is replaced
  by U+FFFD (\<open>EF BF BD\<close>).
\<close>

fun TextEncoder_encode :: "jsstring \<Rightarrow> nat list" where
  "TextEncoder_encode [] = []"
| "TextEncoder_encode (c # cs) =
     (if c < 0x80 then c # TextEncoder_encode cs
      else if c < 0x800 then [0xC0 + c div 64, 0x80 + c mod 64] @ TextEncoder_encode cs
      else if 0xD800 \<le> c \<and> c < 0xDC00 then
        (case cs of
           [] \<Rightarrow> [0xEF, 0xBF, 0xBD]
         | d # ds \<Rightarrow>
             if 0xDC00 \<le> d \<and> d < 0xE000 then
               (let cp = 0x10000 + (c - 0xD800) * 1024 + (d - 0xDC00)
                in [0xF0 + cp div 262144, 0x80 + cp div 4096 mod 64,
                    0x80 + cp div 64 mod 64, 0x80 + cp mod 64] @ TextEncoder_encode ds)
             else [0xEF, 0xBF, 0xBD] @ TextEncoder_encode cs)
      else if 0xDC00 \<le> c \<and> c < 0xE000 then [0xEF, 0xBF, 0xBD] @ TextEncoder_encode cs
      else [0xE0 + c div 4096, 0x80 + c div 64 mod 64, 0x80 + c mod 64] @
           TextEncoder_encode cs)"

subsection \<open>SHA-256 (FIPS 180-4) and HMAC (RFC 2104)\<close>

definition Ch :: "32 word \<Rightarrow> 32 word \<Rightarrow> 32 word \<Rightarrow> 32 word" where
  "Ch x y z = (x AND y) XOR (NOT x AND z)"

definition Maj :: "32 word \<Rightarrow> 32 word \<Rightarrow> 32 word \<Rightarrow> 32 word" where
  "Maj x y z = (x AND y) XOR (x AND z) XOR (y AND z)"

definition big_sigma0 :: "32 word \<Rightarrow> 32 word" where
  "big_sigma0 x = word_rotr 2 x XOR word_rotr 13 x XOR word_rotr 22 x"

definition big_sigma1 :: "32 word \<Rightarrow> 32 word" where
  "big_sigma1 x = word_rotr 6 x XOR word_rotr 11 x XOR word_rotr 25 x"

definition small_sigma0 :: "32 word \<Rightarrow> 32 word" where
  "small_sigma0 x = word_rotr 7 x XOR word_rotr 18 x XOR drop_bit 3 x"

definition small_sigma1 :: "32 word \<Rightarrow> 32 word" where
  "small_sigma1 x = word_rotr 17 x XOR word_rotr 19 x XOR drop_bit 10 x"

text \<open>
  The round constants and the initial hash value (FIPS 180-4, sections 4.2.2 and
  5.3.3), written in decimal.
\<close>

definition sha256_K :: "32 word list" where
  "sha256_K =
    [1116352408, 1899447441, 3049323471, 3921009573, 961987163, 1508970993,
     2453635748, 2870763221, 3624381080, 310598401, 607225278, 1426881987,
     1925078388, 2162078206, 2614888103, 3248222580, 3835390401, 4022224774,
     264347078, 604807628, 770255983, 1249150122, 1555081692, 1996064986,
     2554220882, 2821834349, 2952996808, 3210313671, 3336571891, 3584528711,
     113926993, 338241895, 666307205, 773529912, 1294757372, 1396182291,
     1695183700, 1986661051, 2177026350, 2456956037, 2730485921, 2820302411,
     3259730800, 3345764771, 3516065817, 3600352804, 4094571909, 275423344,
     430227734, 506948616, 659060556, 883997877, 958139571, 1322822218,
     1537002063, 1747873779, 1955562222, 2024104815, 2227730452, 2361852424,
     2428436474, 2756734187, 3204031479, 3329325298]"

type_synonym sha_state =
  "32 word \<times> 32 word \<times> 32 word \<times> 32 word \<times> 32 word \<times> 32 word \<times> 32 word \<times> 32 word"

definition sha256_H0 :: sha_state where
  "sha256_H0 =
    (1779033703, 3144134277, 1013904242, 2773480762,
     1359893119, 2600822924, 528734635, 1541459225)"

text \<open>Big-endian: a word from four bytes, and the \<open>k\<close> low bytes of a number.\<close>

definition be_word :: "nat list \<Rightarrow> 32 word" where
  "be_word bs = foldl (\<lambda>w b. push_bit 8 w + of_nat b) 0 bs"

fun be_bytes :: "nat \<Rightarrow> nat \<Rightarrow> nat list" where
  "be_bytes 0 v = []"
| "be_bytes (Suc k) v = (v div 256 ^ k) mod 256 # be_bytes k v"

fun chunks :: "nat \<Rightarrow> 'a list \<Rightarrow> 'a list list" where
  "chunks n [] = []"
| "chunks n (x # xs) =
     (if n = 0 then [x # xs] else take n (x # xs) # chunks n (drop n (x # xs)))"

definition sha256_pad :: "nat list \<Rightarrow> nat list" where
  "sha256_pad m =
     m @ [0x80] @ replicate ((119 - length m mod 64) mod 64) 0 @ be_bytes 8 (8 * length m)"

fun schedule_extend :: "nat \<Rightarrow> 32 word list \<Rightarrow> 32 word list" where
  "schedule_extend 0 w = w"
| "schedule_extend (Suc n) w =
     (let t = length w
      in schedule_extend n
           (w @ [small_sigma1 (w ! (t - 2)) + w ! (t - 7) +
                 small_sigma0 (w ! (t - 15)) + w ! (t - 16)]))"

definition sha256_round :: "sha_state \<Rightarrow> 32 word \<times> 32 word \<Rightarrow> sha_state" where
  "sha256_round s kw =
     (case s of (a, b, c, d, e, f, g, h) \<Rightarrow>
        let t1 = h + big_sigma1 e + Ch e f g + fst kw + snd kw;
            t2 = big_sigma0 a + Maj a b c
        in (t1 + t2, a, b, c, d + t1, e, f, g))"

definition sha256_compress :: "sha_state \<Rightarrow> nat list \<Rightarrow> sha_state" where
  "sha256_compress hs block =
     (let w = schedule_extend 48 (map be_word (chunks 4 block))
      in case (hs, foldl sha256_round hs (zip sha256_K w)) of
           ((a, b, c, d, e, f, g, h), (a', b', c', d', e', f', g', h')) \<Rightarrow>
             (a + a', b + b', c + c', d + d', e + e', f + f', g + g', h + h'))"

definition sha256 :: "nat list \<Rightarrow> nat list" where
  "sha256 m =
     (case foldl sha256_compress sha256_H0 (chunks 64 (sha256_pad m)) of
        (a, b, c, d, e, f, g, h) \<Rightarrow>
          concat (map (\<lambda>w. be_bytes 4 (unat w)) [a, b, c, d, e, f, g, h]))"

text \<open>
  HMAC with the block size 64: a key longer than a block is hashed, and the key is
  filled with zero bytes to the length of a block.
\<close>

definition hmac_sha256 :: "nat list \<Rightarrow> nat list \<Rightarrow> nat list" where
  "hmac_sha256 key msg =
     (let k1 = (if length key > 64 then sha256 key else key);
          k0 = k1 @ replicate (64 - length k1) 0
      in sha256 (map (\<lambda>b. b XOR 0x5c) k0 @ sha256 (map (\<lambda>b. b XOR 0x36) k0 @ msg)))"

subsection \<open>JSON\<close>

text \<open>
  \<open>JSON.stringify\<close> of a string: the quotation mark, the backslash and the control
  characters are escaped, a lone surrogate is written \<open>\udxxx\<close>, every other code unit
  stands for itself.
\<close>

definition hexDigit :: "nat \<Rightarrow> nat" where
  "hexDigit d = (if d < 10 then 48 + d else 87 + d)"

definition unicodeEscape :: "nat \<Rightarrow> jsstring" where
  "unicodeEscape c =
     [92, 117, hexDigit (c div 4096 mod 16), hexDigit (c div 256 mod 16),
      hexDigit (c div 16 mod 16), hexDigit (c mod 16)]"

fun JSON_escape :: "jsstring \<Rightarrow> jsstring" where
  "JSON_escape [] = []"
| "JSON_escape (c # cs) =
     (if c = 8 then [92, 98] @ JSON_escape cs
      else if c = 9 then [92, 116] @ JSON_escape cs
      else if c = 10 then [92, 110] @ JSON_escape cs
      else if c = 12 then [92, 102] @ JSON_escape cs
      else if c = 13 then [92, 114] @ JSON_escape cs
      else if c = 34 then [92, 34] @ JSON_escape cs
      else if c = 92 then [92, 92] @ JSON_escape cs
      else if c < 32 then unicodeEscape c @ JSON_escape cs
      else if 0xD800 \<le> c \<and> c < 0xDC00 then
        (case cs of
           [] \<Rightarrow> unicodeEscape c
         | d # ds \<Rightarrow>
             if 0xDC00 \<le> d \<and> d < 0xE000 then c # d # JSON_escape ds
             else unicodeEscape c @ JSON_escape cs)
      else if 0xDC00 \<le> c \<and> c < 0xE000 then unicodeEscape c @ JSON_escape cs
      else c # JSON_escape cs)"

definition JSON_quote :: "jsstring \<Rightarrow> jsstring" where
  "JSON_quote s = [34] @ JSON_escape s @ [34]"

text \<open>The decimal digits of an integer, after its sign.\<close>

definition JSON_integer :: "int \<Rightarrow> jsstring" where
  "JSON_integer i = (if i < 0 then 45 # decimal (nat (- i)) else decimal (nat i))"

text \<open>
  The parameters: \<open>JSON_parse\<close> (\<open>None\<close> for a SyntaxError), \<open>ToNumber\<close> on the values
  that are neither numbers, booleans nor null (strings, arrays, objects), and the text
  of an integral Number above \<open>2^53\<close> in absolute value.
\<close>

record platform =
  JSON_parse :: "jsstring \<Rightarrow> json option"
  ToNumber_other :: "json \<Rightarrow> jsnumber"
  Number_toString_other :: "int \<Rightarrow> jsstring"

text \<open>
  An integral Number as \<open>JSON.stringify\<close> writes it: the platform writes the shortest
  digits that read back as the same Number (and an exponent from \<open>10^21\<close> on). Up to
  \<open>2^53\<close> in absolute value these are the decimal digits of the integer.
\<close>

definition JSON_number :: "platform \<Rightarrow> int \<Rightarrow> jsstring" where
  "JSON_number P n =
     (if \<bar>n\<bar> \<le> 9007199254740992 then JSON_integer n else Number_toString_other P n)"

section \<open>Token service (middleware/auth.ts)\<close>

record JWTPayload =
  jwt_sub :: jsstring
  jwt_exp :: int
  jwt_iat :: int

text \<open>\<open>JSON.stringify({ alg: 'HS256', typ: 'JWT' })\<close>\<close>

definition JSON_stringify_header :: jsstring where
  "JSON_stringify_header =
     js ''{'' @ JSON_quote (js ''alg'') @ js '':'' @ JSON_quote (js ''HS256'') @ js '','' @
     JSON_quote (js ''typ'') @ js '':'' @ JSON_quote (js ''JWT'') @ js ''}''"

text \<open>\<open>JSON.stringify(payload)\<close>, the properties in the order \<open>sub\<close>, \<open>iat\<close>, \<open>exp\<close>.\<close>

definition JSON_stringify_payload :: "platform \<Rightarrow> JWTPayload \<Rightarrow> jsstring" where
  "JSON_stringify_payload P payload =
     js ''{'' @ JSON_quote (js ''sub'') @ js '':'' @ JSON_quote (jwt_sub payload) @ js '','' @
     JSON_quote (js ''iat'') @ js '':'' @ JSON_number P (jwt_iat payload) @ js '','' @
     JSON_quote (js ''exp'') @ js '':'' @ JSON_number P (jwt_exp payload) @ js ''}''"

text \<open>The value \<open>JSON.parse\<close> gives for that text.\<close>

definition payload_value :: "JWTPayload \<Rightarrow> json" where
  "payload_value payload =
     JObject [(js ''sub'', JString (jwt_sub payload)),
              (js ''iat'', JNumber (Finite (real_of_int (jwt_iat payload)))),
              (js ''exp'', JNumber (Finite (real_of_int (jwt_exp payload))))]"

definition base64UrlEncode :: "jsstring \<Rightarrow> jsstring option" where
  "base64UrlEncode str =
     (case btoa str of
        None \<Rightarrow> None
      | Some base64 \<Rightarrow>
          Some (stripTrailingEquals (replaceAll 47 95 (replaceAll 43 45 base64))))"

text \<open>\<open>while (base64.length % 4) base64 += '='\<close>\<close>

function padBase64 :: "jsstring \<Rightarrow> jsstring" where
  "padBase64 base64 =
     (if length base64 mod 4 \<noteq> 0 then padBase64 (base64 @ [61]) else base64)"
  by pat_completeness auto
termination
  by (relation "measure (\<lambda>s. (4 - length s mod 4) mod 4)") (auto simp: mod_Suc)

declare padBase64.simps [simp del]

definition base64UrlDecode :: "jsstring \<Rightarrow> jsstring option" where
  "base64UrlDecode str = atob (padBase64 (replaceAll 95 47 (replaceAll 45 43 str)))"

text \<open>
  \<open>sign\<close>: \<open>importKey\<close> rejects a key of length zero (DataError); the signature bytes
  become a string of code units below 256.
\<close>

definition sign :: "jsstring \<Rightarrow> jsstring \<Rightarrow> jsstring option" where
  "sign message secret =
     (let keyData = TextEncoder_encode secret
      in if keyData = [] then None
         else base64UrlEncode (hmac_sha256 keyData (TextEncoder_encode message)))"

text \<open>
  \<open>createToken\<close>: \<open>nowMs\<close> is \<open>Date.now()\<close>; \<open>expiresIn\<close> is an integral Number, 86400
  when absent; \<open>now + expiresIn\<close> is the sum of Numbers. An exception of \<open>btoa\<close> or of
  \<open>sign\<close> leaves the function: the result is \<open>None\<close>.
\<close>

definition createToken ::
  "platform \<Rightarrow> int \<Rightarrow> jsstring \<Rightarrow> jsstring \<Rightarrow> int option \<Rightarrow> jsstring option" where
  "createToken P nowMs username secret expiresIn =
     (let now = nowMs div 1000;
          payload = \<lparr> jwt_sub = username,
                      jwt_exp = Number_add now (overlay 86400 expiresIn),
                      jwt_iat = now \<rparr>
      in case base64UrlEncode JSON_stringify_header of
           None \<Rightarrow> None
         | Some headerB64 \<Rightarrow>
             (case base64UrlEncode (JSON_stringify_payload P payload) of
                None \<Rightarrow> None
              | Some payloadB64 \<Rightarrow>
                  (case sign (headerB64 @ js ''.'' @ payloadB64) secret of
                     None \<Rightarrow> None
                   | Some signature \<Rightarrow>
                       Some (headerB64 @ js ''.'' @ payloadB64 @ js ''.'' @ signature))))"

text \<open>
  \<open>payload.exp < now\<close>. Reading a property of \<open>null\<close> throws (a TypeError); a missing
  property, and any property of a number, boolean, string or array named \<open>exp\<close>, is
  \<open>undefined\<close>, which converts to NaN; a comparison with NaN is false.
\<close>

definition num_less :: "jsnumber \<Rightarrow> jsnumber \<Rightarrow> bool" where
  "num_less a b =
     (case (a, b) of
        (Finite x, Finite y) \<Rightarrow> x < y
      | (Finite x, PosInfinity) \<Rightarrow> True
      | (NegInfinity, Finite y) \<Rightarrow> True
      | (NegInfinity, PosInfinity) \<Rightarrow> True
      | _ \<Rightarrow> False)"

definition ToNumber :: "platform \<Rightarrow> json \<Rightarrow> jsnumber" where
  "ToNumber P v =
     (case v of
        JNull \<Rightarrow> Finite 0
      | JBool b \<Rightarrow> Finite (if b then 1 else 0)
      | JNumber n \<Rightarrow> n
      | _ \<Rightarrow> ToNumber_other P v)"

definition expired :: "platform \<Rightarrow> json \<Rightarrow> int \<Rightarrow> bool option" where
  "expired P payload now =
     (case payload of
        JNull \<Rightarrow> None
      | JObject members \<Rightarrow>
          (case map_of members (js ''exp'') of
             None \<Rightarrow> Some False
           | Some v \<Rightarrow> Some (num_less (ToNumber P v) (Finite (real_of_int now))))
      | _ \<Rightarrow> Some False)"

text \<open>
  \<open>verifyToken\<close>: the whole body stands in \<open>try { ... } catch { return null }\<close>, so every
  exception (of \<open>sign\<close>, \<open>atob\<close>, \<open>JSON.parse\<close>, or reading \<open>exp\<close> of \<open>null\<close>) gives
  \<open>None\<close>, as the two \<open>return null\<close> do.
\<close>

definition verifyToken :: "platform \<Rightarrow> int \<Rightarrow> jsstring \<Rightarrow> jsstring \<Rightarrow> json option" where
  "verifyToken P nowMs token secret =
     (case js_split 46 token of
        [headerB64, payloadB64, signatureB64] \<Rightarrow>
          (case sign (headerB64 @ js ''.'' @ payloadB64) secret of
             None \<Rightarrow> None
           | Some expectedSignature \<Rightarrow>
               if signatureB64 \<noteq> expectedSignature then None
               else
                 (case base64UrlDecode payloadB64 of
                    None \<Rightarrow> None
                  | Some decoded \<Rightarrow>
                      (case JSON_parse P decoded of
                         None \<Rightarrow> None
                       | Some payload \<Rightarrow>
                           (case expired P payload (nowMs div 1000) of
                              None \<Rightarrow> None
                            | Some True \<Rightarrow> None
                            | Some False \<Rightarrow> Some payload))))
      | _ \<Rightarrow> None)"

section \<open>Auxiliary notions for the proofs about the token service\<close>

text \<open>
  The two replacements of \<open>base64UrlEncode\<close> on one code unit; the escape of one code
  unit that is no surrogate; the payload \<open>createToken\<close> builds; the JSON text of a
  payload whose numbers are at most \<open>2^53\<close> in absolute value.
\<close>

definition urlChar :: "nat \<Rightarrow> nat" where
  "urlChar c = (if c = 43 then 45 else if c = 47 then 95 else c)"

definition escapeUnit :: "nat \<Rightarrow> jsstring" where
  "escapeUnit c =
     (if c = 8 then [92, 98]
      else if c = 9 then [92, 116]
      else if c = 10 then [92, 110]
      else if c = 12 then [92, 102]
      else if c = 13 then [92, 114]
      else if c = 34 then [92, 34]
      else if c = 92 then [92, 92]
      else if c < 32 then unicodeEscape c
      else [c])"

definition issuedPayload :: "int \<Rightarrow> jsstring \<Rightarrow> int option \<Rightarrow> JWTPayload" where
  "issuedPayload nowMs username expiresIn =
     \<lparr> jwt_sub = username,
       jwt_exp = Number_add (nowMs div 1000) (overlay 86400 expiresIn),
       jwt_iat = nowMs div 1000 \<rparr>"

definition payloadText :: "JWTPayload \<Rightarrow> jsstring" where
  "payloadText payload =
     js ''{'' @ JSON_quote (js ''sub'') @ js '':'' @ JSON_quote (jwt_sub payload) @ js '','' @
     JSON_quote (js ''iat'') @ js '':'' @ JSON_integer (jwt_iat payload) @ js '','' @
     JSON_quote (js ''exp'') @ js '':'' @ JSON_integer (jwt_exp payload) @ js ''}''"

section \<open>Example data\<close>

text \<open>Projects, endpoints, settings and requests for the concrete instances below.\<close>

definition example_api :: Project where
  "example_api =
     \<lparr> p_id = js ''p1'', p_name = js ''Api'', p_description = None,
       p_basePath = js ''/api'', p_createdAt = 1000, p_updatedAt = 1000 \<rparr>"

definition example_api_v1 :: Project where
  "example_api_v1 =
     \<lparr> p_id = js ''p2'', p_name = js ''Api v1'', p_description = None,
       p_basePath = js ''/api/v1'', p_createdAt = 2000, p_updatedAt = 2000 \<rparr>"

definition example_docs :: Project where
  "example_docs =
     \<lparr> p_id = js ''p3'', p_name = js ''Docs'', p_description = Some (js ''manual''),
       p_basePath = js ''/docs'', p_createdAt = 2500, p_updatedAt = 2500 \<rparr>"

text \<open>A project whose id is the empty string, as a data file may hold it.\<close>

definition example_unnamed :: Project where
  "example_unnamed =
     \<lparr> p_id = [], p_name = js ''Loaded'', p_description = None,
       p_basePath = js ''/x'', p_createdAt = 1000, p_updatedAt = 1000 \<rparr>"

definition example_ok :: EndpointResponse where
  "example_ok =
     \<lparr> r_status = 200, r_headers = [], r_body = JObject [(js ''ok'', JBool True)],
       r_delay = None \<rparr>"

definition example_users :: Endpoint where
  "example_users =
     \<lparr> e_id = js ''e1'', e_projectId = js ''p2'', e_path = js ''/users'',
       e_method = js ''GET'', e_response = example_ok, e_enabled = True,
       e_createdAt = 3000, e_updatedAt = 3000 \<rparr>"

definition example_root :: Endpoint where
  "example_root =
     \<lparr> e_id = js ''e0'', e_projectId = js ''p1'', e_path = js ''/'',
       e_method = js ''GET'', e_response = example_ok, e_enabled = True,
       e_createdAt = 3000, e_updatedAt = 3000 \<rparr>"

definition example_preflight :: Endpoint where
  "example_preflight =
     \<lparr> e_id = js ''e2'', e_projectId = js ''p2'', e_path = js ''/users'',
       e_method = js ''OPTIONS'', e_response = example_ok, e_enabled = True,
       e_createdAt = 3000, e_updatedAt = 3000 \<rparr>"

definition example_settings :: GlobalSettings where
  "example_settings = DEFAULT_SETTINGS \<lparr> corsOrigins := [js ''https://a.com''] \<rparr>"

definition example_store :: "Project list \<Rightarrow> Endpoint list \<Rightarrow> GlobalSettings \<Rightarrow> StorageData" where
  "example_store ps es cfg = \<lparr> sd_projects = ps, sd_endpoints = es, sd_settings = cfg \<rparr>"

definition example_kv :: "Project list \<Rightarrow> Endpoint list \<Rightarrow> KVData" where
  "example_kv ps es = \<lparr> kv_projects = Some ps, kv_endpoints = Some es, kv_settings = None \<rparr>"

definition example_context :: "jsstring \<Rightarrow> jsstring \<Rightarrow> jsstring option \<Rightarrow> Context" where
  "example_context method path origin =
     \<lparr> req = \<lparr> req_method = method, req_path = path, req_origin = origin \<rparr>,
       resHeaders = [] \<rparr>"

text \<open>A handler standing for the management routes: it answers 200 with no body.\<close>

definition example_admin :: handler where
  "example_admin c = (c, empty_response 200)"

text \<open>
  The payload of a token issued for \<open>admin\<close> at the time 1000000 ms with the lifetime 60,
  and a platform for it: \<open>JSON.parse\<close> at the one text the instances parse (the JSON
  text of that payload; on any other text this stand-in reports a syntax error), and a
  conversion to numbers and a text of large Numbers that the instances never reach.
\<close>

definition example_payload :: JWTPayload where
  "example_payload = \<lparr> jwt_sub = js ''admin'', jwt_exp = 1060, jwt_iat = 1000 \<rparr>"

definition example_platform :: platform where
  "example_platform =
     \<lparr> JSON_parse =
         (\<lambda>text. if text = payloadText example_payload
                  then Some (payload_value example_payload) else None),
       ToNumber_other = (\<lambda>v. NaN),
       Number_toString_other = (\<lambda>n. []) \<rparr>"

section \<open>Properties of the array helpers\<close>

lemma findIndex_Some_iff:
  "findIndex P xs = Some i \<longleftrightarrow> i < length xs \<and> P (xs ! i) \<and> (\<forall>j<i. \<not> P (xs ! j))"
proof (induction xs arbitrary: i)
  case Nil
  then show ?case by simp
next
  case (Cons x xs)
  show ?case
  proof (cases "P x")
    case True
    then show ?thesis by (cases i) auto
  next
    case False
    show ?thesis
    proof (cases i)
      case 0
      with False show ?thesis by auto
    next
      case (Suc k)
      have "(\<forall>j<Suc k. \<not> P ((x # xs) ! j)) \<longleftrightarrow> (\<forall>j<k. \<not> P (xs ! j))"
        using False by (auto simp: less_Suc_eq_0_disj)
      with False Suc Cons.IH [of k] show ?thesis by auto
    qed
  qed
qed

lemma findIndex_None_iff: "findIndex P xs = None \<longleftrightarrow> (\<forall>x\<in>set xs. \<not> P x)"
  by (induction xs) auto

lemma findIndex_present: "(\<exists>i. findIndex P xs = Some i) \<longleftrightarrow> (\<exists>x\<in>set xs. P x)"
  using findIndex_None_iff [of P xs] by (cases "findIndex P xs") auto

lemma js_simps: "js [] = []" "js (c # cs) = of_char c # js cs"
  by (simp_all add: js_def)

section \<open>Resolution: which project is chosen\<close>

lemma matchingProject_first:
  assumes "list_all (\<lambda>q. \<not> startsWith fullPath (p_basePath q)) pre"
    and "startsWith fullPath (p_basePath p)"
  shows "matchingProject fullPath (pre @ p # post) = Some p"
  using assms unfolding matchingProject_def
  by (induction pre) auto

lemma matchingProject_None_iff:
  "matchingProject fullPath ps = None \<longleftrightarrow>
     (\<forall>p\<in>set ps. \<not> startsWith fullPath (p_basePath p))"
  by (auto simp: matchingProject_def find_None_iff)

lemma longestMatch_spec_matches:
  "longestMatch_spec fullPath ps = Some q \<Longrightarrow>
     q \<in> set ps \<and> startsWith fullPath (p_basePath q)"
  by (induction ps arbitrary: q) (auto split: option.splits if_splits)

lemma longestMatch_spec_head:
  assumes "startsWith fullPath (p_basePath p)"
    and "\<forall>q\<in>set post. startsWith fullPath (p_basePath q) \<longrightarrow>
           length (p_basePath q) \<le> length (p_basePath p)"
  shows "longestMatch_spec fullPath (p # post) = Some p"
  using assms longestMatch_spec_matches [of fullPath post]
  by (auto split: option.splits)

lemma longestMatch_spec_skip:
  assumes "list_all (\<lambda>q. \<not> startsWith fullPath (p_basePath q)) pre"
  shows "longestMatch_spec fullPath (pre @ ps) = longestMatch_spec fullPath ps"
  using assms by (induction pre) (auto split: option.splits)

text \<open>
  Claim C1, as amended. Both storages resolve a request against the first stored Project
  whose basePath is a prefix of the request path: when no Project stored before \<open>p\<close>
  matches and \<open>p\<close> matches, \<open>p\<close> is chosen and the endpoints are scanned for \<open>p\<close>. The
  chosen Project is the one with the longest matching basePath only if no Project stored
  after it has a longer matching basePath.
\<close>

theorem resolve_selects_first_stored_match:
  assumes "sd_projects st = pre @ p # post"
    and "KV_getProjects kv = pre @ p # post"
    and "list_all (\<lambda>q. \<not> startsWith fullPath (p_basePath q)) pre"
    and "startsWith fullPath (p_basePath p)"
  shows "matchingProject fullPath (pre @ p # post) = Some p
       \<and> Memory_getEndpointByPath fullPath subPath method st =
           find (\<lambda>e. e_projectId e = p_id p \<and>
                      e_path e = or_else (substring fullPath (length (p_basePath p))) (js ''/'') \<and>
                      e_method e = method \<and> e_enabled e)
                (sd_endpoints st)
       \<and> KV_getEndpointByPath fullPath subPath method kv =
           find (\<lambda>e. e_projectId e = p_id p \<and>
                      e_path e = substring fullPath (length (p_basePath p)) @ subPath \<and>
                      e_method e = method \<and> e_enabled e)
                (KV_getEndpoints None kv)
       \<and> ((\<forall>q\<in>set post. startsWith fullPath (p_basePath q) \<longrightarrow>
              length (p_basePath q) \<le> length (p_basePath p)) \<longrightarrow>
            longestMatch_spec fullPath (pre @ p # post) = Some p)"
proof -
  have chosen: "matchingProject fullPath (pre @ p # post) = Some p"
    using assms(3,4) by (rule matchingProject_first)
  have memory: "Memory_getEndpointByPath fullPath subPath method st =
           find (\<lambda>e. e_projectId e = p_id p \<and>
                      e_path e = or_else (substring fullPath (length (p_basePath p))) (js ''/'') \<and>
                      e_method e = method \<and> e_enabled e)
                (sd_endpoints st)"
    using chosen assms(1) by (simp add: Memory_getEndpointByPath_def)
  have kv: "KV_getEndpointByPath fullPath subPath method kv =
           find (\<lambda>e. e_projectId e = p_id p \<and>
                      e_path e = substring fullPath (length (p_basePath p)) @ subPath \<and>
                      e_method e = method \<and> e_enabled e)
                (KV_getEndpoints None kv)"
    using chosen assms(2) by (simp add: KV_getEndpointByPath_def Let_def)
  have longest: "longestMatch_spec fullPath (pre @ p # post) = Some p"
    if "\<forall>q\<in>set post. startsWith fullPath (p_basePath q) \<longrightarrow>
              length (p_basePath q) \<le> length (p_basePath p)"
    using longestMatch_spec_skip [OF assms(3)] longestMatch_spec_head [OF assms(4) that]
    by simp
  from chosen memory kv longest show ?thesis by blast
qed

theorem resolve_selects_first_stored_match_witness:
  "list_all (\<lambda>q. \<not> startsWith (js ''/api/v1/users'') (p_basePath q)) [example_docs]
   \<and> startsWith (js ''/api/v1/users'') (p_basePath example_api_v1)
   \<and> matchingProject (js ''/api/v1/users'') [example_docs, example_api_v1, example_api] =
       Some example_api_v1
   \<and> Memory_getEndpointByPath (js ''/api/v1/users'') [] (js ''GET'')
       (example_store [example_docs, example_api_v1, example_api] [example_users]
          DEFAULT_SETTINGS) = Some example_users
   \<and> KV_getEndpointByPath (js ''/api/v1/users'') [] (js ''GET'')
       (example_kv [example_docs, example_api_v1, example_api] [example_users]) =
       Some example_users
   \<and> longestMatch_spec (js ''/api/v1/users'') [example_docs, example_api_v1, example_api] =
       Some example_api_v1"
proof -
  have h1: "sd_projects (example_store [example_docs, example_api_v1, example_api]
              [example_users] DEFAULT_SETTINGS) = [example_docs] @ example_api_v1 # [example_api]"
    by (simp add: example_store_def)
  have h2: "KV_getProjects (example_kv [example_docs, example_api_v1, example_api]
              [example_users]) = [example_docs] @ example_api_v1 # [example_api]"
    by (simp add: example_kv_def KV_getProjects_def)
  have h3: "list_all (\<lambda>q. \<not> startsWith (js ''/api/v1/users'') (p_basePath q)) [example_docs]"
    by (simp add: startsWith_def example_docs_def js_simps)
  have h4: "startsWith (js ''/api/v1/users'') (p_basePath example_api_v1)"
    by (simp add: startsWith_def example_api_v1_def js_simps)
  have h5: "\<forall>q\<in>set [example_api]. startsWith (js ''/api/v1/users'') (p_basePath q) \<longrightarrow>
              length (p_basePath q) \<le> length (p_basePath example_api_v1)"
    by (simp add: example_api_def example_api_v1_def js_simps)
  from resolve_selects_first_stored_match [OF h1 h2 h3 h4, of "[]" "js ''GET''"] h3 h4 h5
  show ?thesis
    by (simp add: example_store_def example_kv_def KV_getEndpoints_def substring_def
        or_else_def example_users_def example_api_v1_def js_simps)
qed

text \<open>
  Claim C1 as stated fails: with \<open>/api\<close> stored before \<open>/api/v1\<close>, a request to
  \<open>/api/v1/users\<close> is resolved against \<open>/api\<close>, whose basePath is the shorter of the two
  matching ones, and the \<open>GET /users\<close> endpoint of \<open>/api/v1\<close> is not found, in either
  storage.
\<close>

theorem longest_prefix_counterexample:
  "matchingProject (js ''/api/v1/users'') [example_api, example_api_v1] = Some example_api
   \<and> longestMatch_spec (js ''/api/v1/users'') [example_api, example_api_v1] =
       Some example_api_v1
   \<and> startsWith (js ''/api/v1/users'') (p_basePath example_api_v1)
   \<and> length (p_basePath example_api) < length (p_basePath example_api_v1)
   \<and> Memory_getEndpointByPath (js ''/api/v1/users'') [] (js ''GET'')
       (example_store [example_api, example_api_v1] [example_users] DEFAULT_SETTINGS) = None
   \<and> KV_getEndpointByPath (js ''/api/v1/users'') [] (js ''GET'')
       (example_kv [example_api, example_api_v1] [example_users]) = None"
  by (simp add: matchingProject_def Memory_getEndpointByPath_def KV_getEndpointByPath_def
      KV_getProjects_def KV_getEndpoints_def startsWith_def substring_def or_else_def
      example_store_def example_kv_def example_api_def example_api_v1_def example_users_def
      js_simps)

section \<open>Resolution: the relative path and the endpoint\<close>

text \<open>
  MemoryStorage does what claim C2 says: the basePath of the chosen Project is removed
  from the front of the request path, an empty remainder becomes \<open>/\<close>, and the first
  stored endpoint of that Project with this path, the request method and
  \<open>enabled\<close> is returned; without a matching Project the result is none.
\<close>

lemma Memory_resolution:
  assumes "matchingProject fullPath (sd_projects st) = Some project"
  shows "\<exists>rest relativePath.
           fullPath = p_basePath project @ rest \<and>
           relativePath = (if rest = [] then js ''/'' else rest) \<and>
           Memory_getEndpointByPath fullPath subPath method st =
             find (\<lambda>e. e_projectId e = p_id project \<and> e_path e = relativePath \<and>
                        e_method e = method \<and> e_enabled e) (sd_endpoints st)"
proof -
  from assms have "startsWith fullPath (p_basePath project)"
    unfolding matchingProject_def by (auto simp: find_Some_iff)
  then obtain rest where rest: "fullPath = p_basePath project @ rest"
    unfolding startsWith_def prefix_def by blast
  then have "substring fullPath (length (p_basePath project)) = rest"
    by (simp add: substring_def)
  with assms rest show ?thesis
    by (simp add: Memory_getEndpointByPath_def or_else_def)
qed

lemma Memory_resolution_none:
  assumes "\<forall>p\<in>set (sd_projects st). \<not> startsWith fullPath (p_basePath p)"
  shows "Memory_getEndpointByPath fullPath subPath method st = None"
  using assms matchingProject_None_iff [of fullPath "sd_projects st"]
  by (simp add: Memory_getEndpointByPath_def)

text \<open>
  Claim C2 on KVStorage. Its \<open>getEndpointByPath\<close> appends the \<open>path\<close> argument to the
  remainder and has no \<open>|| '/'\<close>: for a request to \<open>/api\<close>, with the Project \<open>/api\<close> and
  its enabled endpoint \<open>GET /\<close> stored, the relative path is the empty string and nothing
  is found, where MemoryStorage returns the endpoint.
\<close>

theorem kv_resolution_keeps_empty_remainder:
  "KV_getEndpointByPath (js ''/api'') [] (js ''GET'')
     (example_kv [example_api] [example_root]) = None
   \<and> Memory_getEndpointByPath (js ''/api'') [] (js ''GET'')
       (example_store [example_api] [example_root] DEFAULT_SETTINGS) = Some example_root"
  by (simp add: KV_getEndpointByPath_def KV_getEndpoints_def KV_getProjects_def
      Memory_getEndpointByPath_def matchingProject_def startsWith_def substring_def
      or_else_def example_store_def example_kv_def example_api_def example_root_def js_simps)

section \<open>Deleting a project\<close>

text \<open>
  Claim C8, as amended. When a Project with the id is stored, \<open>deleteProject\<close> returns
  true, removes the first stored Project with that id, removes exactly the endpoints whose
  projectId equals the id (the others stay, in their order), and afterwards
  \<open>getEndpoints(id)\<close> is empty provided the id is not the empty string. When no Project
  with the id is stored it returns false and the storage is unchanged.
\<close>

theorem deleteProject_cascade:
  "(ident \<in> p_id ` set (sd_projects st) \<longrightarrow>
      fst (Memory_deleteProject ident st) = True \<and>
      sd_endpoints (snd (Memory_deleteProject ident st)) =
        filter (\<lambda>e. e_projectId e \<noteq> ident) (sd_endpoints st) \<and>
      (ident \<noteq> [] \<longrightarrow>
         Memory_getEndpoints (Some ident) (snd (Memory_deleteProject ident st)) = []) \<and>
      (\<exists>i. findIndex (\<lambda>p. p_id p = ident) (sd_projects st) = Some i \<and>
           sd_projects (snd (Memory_deleteProject ident st)) = splice1 i (sd_projects st)) \<and>
      sd_settings (snd (Memory_deleteProject ident st)) = sd_settings st)
   \<and> (ident \<notin> p_id ` set (sd_projects st) \<longrightarrow> Memory_deleteProject ident st = (False, st))"
proof (intro conjI impI)
  assume "ident \<notin> p_id ` set (sd_projects st)"
  then have "findIndex (\<lambda>p. p_id p = ident) (sd_projects st) = None"
    by (auto simp: findIndex_None_iff)
  then show "Memory_deleteProject ident st = (False, st)"
    by (simp add: Memory_deleteProject_def)
next
  assume "ident \<in> p_id ` set (sd_projects st)"
  then obtain i where i: "findIndex (\<lambda>p. p_id p = ident) (sd_projects st) = Some i"
    using findIndex_present [of "\<lambda>p. p_id p = ident" "sd_projects st"] by auto
  then have del: "Memory_deleteProject ident st =
      (True, st \<lparr> sd_projects := splice1 i (sd_projects st),
                 sd_endpoints := filter (\<lambda>e. e_projectId e \<noteq> ident) (sd_endpoints st) \<rparr>)"
    by (simp add: Memory_deleteProject_def Memory_deleteEndpointsByProject_def Let_def)
  show "fst (Memory_deleteProject ident st) = True"
    by (simp add: del)
  show "sd_endpoints (snd (Memory_deleteProject ident st)) =
        filter (\<lambda>e. e_projectId e \<noteq> ident) (sd_endpoints st)"
    by (simp add: del)
  show "\<exists>i. findIndex (\<lambda>p. p_id p = ident) (sd_projects st) = Some i \<and>
           sd_projects (snd (Memory_deleteProject ident st)) = splice1 i (sd_projects st)"
    using i by (simp add: del)
  show "sd_settings (snd (Memory_deleteProject ident st)) = sd_settings st"
    by (simp add: del)
  {
    assume "ident \<noteq> []"
    then show "Memory_getEndpoints (Some ident) (snd (Memory_deleteProject ident st)) = []"
      by (simp add: del Memory_getEndpoints_def filter_empty_conv)
  }
qed

theorem deleteProject_cascade_witness:
  "js ''p2'' \<in> p_id ` set [example_api, example_api_v1]
   \<and> js ''p2'' \<noteq> []
   \<and> Memory_deleteProject (js ''p2'')
       (example_store [example_api, example_api_v1] [example_root, example_users]
          DEFAULT_SETTINGS) =
       (True, example_store [example_api] [example_root] DEFAULT_SETTINGS)
   \<and> Memory_getEndpoints (Some (js ''p2''))
       (snd (Memory_deleteProject (js ''p2'')
          (example_store [example_api, example_api_v1] [example_root, example_users]
             DEFAULT_SETTINGS))) = []
   \<and> js ''p9'' \<notin> p_id ` set [example_api, example_api_v1]
   \<and> Memory_deleteProject (js ''p9'')
       (example_store [example_api, example_api_v1] [example_root, example_users]
          DEFAULT_SETTINGS) =
       (False, example_store [example_api, example_api_v1] [example_root, example_users]
          DEFAULT_SETTINGS)"
proof -
  let ?st = "example_store [example_api, example_api_v1] [example_root, example_users]
               DEFAULT_SETTINGS"
  let ?del = "Memory_deleteProject (js ''p2'') ?st"
  have ps: "sd_projects ?st = [example_api, example_api_v1]"
    and es: "sd_endpoints ?st = [example_root, example_users]"
    and cfg: "sd_settings ?st = DEFAULT_SETTINGS"
    by (simp_all add: example_store_def)
  have present: "js ''p2'' \<in> p_id ` set (sd_projects ?st)"
    unfolding ps by (simp add: example_api_v1_def)
  have absent: "js ''p9'' \<notin> p_id ` set (sd_projects ?st)"
    unfolding ps by (simp add: example_api_def example_api_v1_def js_simps)
  have nonempty: "js ''p2'' \<noteq> []"
    by (simp add: js_simps)
  have ix: "findIndex (\<lambda>p. p_id p = js ''p2'') (sd_projects ?st) = Some 1"
    unfolding ps by (simp add: example_api_def example_api_v1_def js_simps)
  have flt: "filter (\<lambda>e. e_projectId e \<noteq> js ''p2'') (sd_endpoints ?st) = [example_root]"
    unfolding es by (simp add: example_root_def example_users_def js_simps)
  from deleteProject_cascade [of "js ''p2''" ?st] present nonempty
  have r: "fst ?del = True"
    and e: "sd_endpoints (snd ?del) = filter (\<lambda>e. e_projectId e \<noteq> js ''p2'') (sd_endpoints ?st)"
    and g: "Memory_getEndpoints (Some (js ''p2'')) (snd ?del) = []"
    and p: "\<exists>i. findIndex (\<lambda>p. p_id p = js ''p2'') (sd_projects ?st) = Some i \<and>
              sd_projects (snd ?del) = splice1 i (sd_projects ?st)"
    and s: "sd_settings (snd ?del) = sd_settings ?st"
    by blast+
  from p ix have p': "sd_projects (snd ?del) = [example_api]"
    by (simp add: ps splice1_def)
  from e flt have e': "sd_endpoints (snd ?del) = [example_root]"
    by simp
  have "snd ?del = example_store [example_api] [example_root] DEFAULT_SETTINGS"
    using p' e' s cfg by (cases "snd ?del") (simp add: example_store_def)
  with r have deleted: "?del = (True, example_store [example_api] [example_root] DEFAULT_SETTINGS)"
    by (cases ?del) simp
  from deleteProject_cascade [of "js ''p9''" ?st] absent
  have kept: "Memory_deleteProject (js ''p9'') ?st = (False, ?st)"
    by blast
  from present absent have "js ''p2'' \<in> p_id ` set [example_api, example_api_v1]"
    and "js ''p9'' \<notin> p_id ` set [example_api, example_api_v1]"
    unfolding ps by blast+
  with nonempty deleted g kept show ?thesis
    by blast
qed

text \<open>
  Claim C8 as stated fails for the empty id: \<open>getEndpoints('')\<close> takes the empty string
  for an absent argument and returns every endpoint, so after deleting the Project with
  id \<open>''\<close> it still returns the endpoints of the other Projects.
\<close>

theorem deleteProject_empty_id_counterexample:
  "[] \<in> p_id ` set (sd_projects (example_store [example_unnamed] [example_users] DEFAULT_SETTINGS))
   \<and> fst (Memory_deleteProject []
           (example_store [example_unnamed] [example_users] DEFAULT_SETTINGS)) = True
   \<and> Memory_getEndpoints (Some [])
       (snd (Memory_deleteProject []
              (example_store [example_unnamed] [example_users] DEFAULT_SETTINGS))) =
       [example_users]"
  by (simp add: Memory_deleteProject_def Memory_deleteEndpointsByProject_def
      Memory_getEndpoints_def splice1_def Let_def example_store_def example_unnamed_def
      example_users_def js_simps)

section \<open>Updating a record\<close>

text \<open>
  Claim C9, as amended. For every store, every project id that a stored Project has (the
  update addresses the first Project with the id) and every patch, and likewise for every
  store, every stored Endpoint and every patch, each on its own: the update returns the
  merged record and stores it in place of the old one; every field present in the patch
  replaces the stored one, except that the id stays the id the record was addressed by
  and \<open>updatedAt\<close> is the current time; \<open>createdAt\<close> is replaced like any other field
  when the patch has it. With the empty patch only \<open>updatedAt\<close> changes.
\<close>

theorem update_merges_patch:
  "(findIndex (\<lambda>p. p_id p = ident) (sd_projects st) = Some i \<longrightarrow>
      (\<exists>u. Memory_updateProject now ident d st =
                (Some u, st \<lparr> sd_projects := (sd_projects st)[i := u] \<rparr>) \<and>
              p_id u = ident \<and> p_updatedAt u = now \<and>
              p_name u = overlay (p_name (sd_projects st ! i)) (pp_name d) \<and>
              p_description u =
                (case pp_description d of
                   None \<Rightarrow> p_description (sd_projects st ! i) | Some v \<Rightarrow> Some v) \<and>
              p_basePath u = overlay (p_basePath (sd_projects st ! i)) (pp_basePath d) \<and>
              p_createdAt u = overlay (p_createdAt (sd_projects st ! i)) (pp_createdAt d) \<and>
              (d = emptyProjectPatch \<longrightarrow> u = (sd_projects st ! i) \<lparr> p_updatedAt := now \<rparr>)))
   \<and> (findIndex (\<lambda>e. e_id e = eid) (sd_endpoints st) = Some j \<longrightarrow>
      (\<exists>v. Memory_updateEndpoint now eid ed st =
                (Some v, st \<lparr> sd_endpoints := (sd_endpoints st)[j := v] \<rparr>) \<and>
              e_id v = eid \<and> e_updatedAt v = now \<and>
              e_projectId v = overlay (e_projectId (sd_endpoints st ! j)) (ep_projectId ed) \<and>
              e_path v = overlay (e_path (sd_endpoints st ! j)) (ep_path ed) \<and>
              e_method v = overlay (e_method (sd_endpoints st ! j)) (ep_method ed) \<and>
              e_response v = overlay (e_response (sd_endpoints st ! j)) (ep_response ed) \<and>
              e_enabled v = overlay (e_enabled (sd_endpoints st ! j)) (ep_enabled ed) \<and>
              e_createdAt v = overlay (e_createdAt (sd_endpoints st ! j)) (ep_createdAt ed) \<and>
              (ed = emptyEndpointPatch \<longrightarrow> v = (sd_endpoints st ! j) \<lparr> e_updatedAt := now \<rparr>)))"
proof (intro conjI impI)
  assume proj: "findIndex (\<lambda>p. p_id p = ident) (sd_projects st) = Some i"
  then have pid: "p_id (sd_projects st ! i) = ident"
    by (simp add: findIndex_Some_iff)
  show "\<exists>u. Memory_updateProject now ident d st =
                (Some u, st \<lparr> sd_projects := (sd_projects st)[i := u] \<rparr>) \<and>
              p_id u = ident \<and> p_updatedAt u = now \<and>
              p_name u = overlay (p_name (sd_projects st ! i)) (pp_name d) \<and>
              p_description u =
                (case pp_description d of
                   None \<Rightarrow> p_description (sd_projects st ! i) | Some v \<Rightarrow> Some v) \<and>
              p_basePath u = overlay (p_basePath (sd_projects st ! i)) (pp_basePath d) \<and>
              p_createdAt u = overlay (p_createdAt (sd_projects st ! i)) (pp_createdAt d) \<and>
              (d = emptyProjectPatch \<longrightarrow> u = (sd_projects st ! i) \<lparr> p_updatedAt := now \<rparr>)"
    using proj pid
    by (simp add: Memory_updateProject_def spreadProject_def overlay_def
        emptyProjectPatch_def Let_def)
next
  assume endp: "findIndex (\<lambda>e. e_id e = eid) (sd_endpoints st) = Some j"
  then have eid: "e_id (sd_endpoints st ! j) = eid"
    by (simp add: findIndex_Some_iff)
  show "\<exists>v. Memory_updateEndpoint now eid ed st =
                (Some v, st \<lparr> sd_endpoints := (sd_endpoints st)[j := v] \<rparr>) \<and>
              e_id v = eid \<and> e_updatedAt v = now \<and>
              e_projectId v = overlay (e_projectId (sd_endpoints st ! j)) (ep_projectId ed) \<and>
              e_path v = overlay (e_path (sd_endpoints st ! j)) (ep_path ed) \<and>
              e_method v = overlay (e_method (sd_endpoints st ! j)) (ep_method ed) \<and>
              e_response v = overlay (e_response (sd_endpoints st ! j)) (ep_response ed) \<and>
              e_enabled v = overlay (e_enabled (sd_endpoints st ! j)) (ep_enabled ed) \<and>
              e_createdAt v = overlay (e_createdAt (sd_endpoints st ! j)) (ep_createdAt ed) \<and>
              (ed = emptyEndpointPatch \<longrightarrow> v = (sd_endpoints st ! j) \<lparr> e_updatedAt := now \<rparr>)"
    using endp eid
    by (simp add: Memory_updateEndpoint_def spreadEndpoint_def overlay_def
        emptyEndpointPatch_def Let_def)
qed

theorem update_merges_patch_witness:
  "findIndex (\<lambda>p. p_id p = js ''p2'')
     (sd_projects (example_store [example_api, example_api_v1] [] DEFAULT_SETTINGS)) = Some 1
   \<and> Memory_updateProject 9000 (js ''p2'')
       (emptyProjectPatch \<lparr> pp_id := Some (js ''zz''), pp_name := Some (js ''Renamed''),
                             pp_updatedAt := Some 1 \<rparr>)
       (example_store [example_api, example_api_v1] [] DEFAULT_SETTINGS) =
       (Some (example_api_v1 \<lparr> p_name := js ''Renamed'', p_updatedAt := 9000 \<rparr>),
        example_store
          [example_api, example_api_v1 \<lparr> p_name := js ''Renamed'', p_updatedAt := 9000 \<rparr>]
          [] DEFAULT_SETTINGS)
   \<and> Memory_updateProject 9000 (js ''p2'') emptyProjectPatch
       (example_store [example_api, example_api_v1] [] DEFAULT_SETTINGS) =
       (Some (example_api_v1 \<lparr> p_updatedAt := 9000 \<rparr>),
        example_store [example_api, example_api_v1 \<lparr> p_updatedAt := 9000 \<rparr>]
          [] DEFAULT_SETTINGS)
   \<and> findIndex (\<lambda>e. e_id e = js ''e1'')
       (sd_endpoints (example_store [] [example_root, example_users] DEFAULT_SETTINGS)) = Some 1
   \<and> Memory_updateEndpoint 9000 (js ''e1'') emptyEndpointPatch
       (example_store [] [example_root, example_users] DEFAULT_SETTINGS) =
       (Some (example_users \<lparr> e_updatedAt := 9000 \<rparr>),
        example_store [] [example_root, example_users \<lparr> e_updatedAt := 9000 \<rparr>]
          DEFAULT_SETTINGS)"
proof -
  let ?st = "example_store [example_api, example_api_v1] [] DEFAULT_SETTINGS"
  let ?se = "example_store [] [example_root, example_users] DEFAULT_SETTINGS"
  let ?d = "emptyProjectPatch \<lparr> pp_id := Some (js ''zz''), pp_name := Some (js ''Renamed''),
                               pp_updatedAt := Some 1 \<rparr>"
  have h1: "findIndex (\<lambda>p. p_id p = js ''p2'') (sd_projects ?st) = Some 1"
    by (simp add: example_store_def example_api_def example_api_v1_def js_simps)
  have h2: "findIndex (\<lambda>e. e_id e = js ''e1'') (sd_endpoints ?se) = Some 1"
    by (simp add: example_store_def example_root_def example_users_def js_simps)
  from update_merges_patch [of "js ''p2''" ?st 1 9000 ?d, THEN conjunct1, THEN mp, OF h1]
  obtain u where
    u: "Memory_updateProject 9000 (js ''p2'') ?d ?st =
          (Some u, ?st \<lparr> sd_projects := (sd_projects ?st)[1 := u] \<rparr>)"
       "p_id u = js ''p2''" "p_updatedAt u = 9000"
       "p_name u = overlay (p_name (sd_projects ?st ! 1)) (pp_name ?d)"
       "p_description u =
          (case pp_description ?d of
             None \<Rightarrow> p_description (sd_projects ?st ! 1) | Some v \<Rightarrow> Some v)"
       "p_basePath u = overlay (p_basePath (sd_projects ?st ! 1)) (pp_basePath ?d)"
       "p_createdAt u = overlay (p_createdAt (sd_projects ?st ! 1)) (pp_createdAt ?d)"
    by blast
  from u(2-7) have "u = example_api_v1 \<lparr> p_name := js ''Renamed'', p_updatedAt := 9000 \<rparr>"
    by (cases u)
       (simp add: example_store_def example_api_v1_def overlay_def emptyProjectPatch_def)
  with u(1) have a: "Memory_updateProject 9000 (js ''p2'') ?d ?st =
       (Some (example_api_v1 \<lparr> p_name := js ''Renamed'', p_updatedAt := 9000 \<rparr>),
        example_store
          [example_api, example_api_v1 \<lparr> p_name := js ''Renamed'', p_updatedAt := 9000 \<rparr>]
          [] DEFAULT_SETTINGS)"
    by (simp add: example_store_def)
  from update_merges_patch [of "js ''p2''" ?st 1 9000 emptyProjectPatch,
      THEN conjunct1, THEN mp, OF h1]
  obtain w where
    w: "Memory_updateProject 9000 (js ''p2'') emptyProjectPatch ?st =
          (Some w, ?st \<lparr> sd_projects := (sd_projects ?st)[1 := w] \<rparr>)"
       "w = (sd_projects ?st ! 1) \<lparr> p_updatedAt := 9000 \<rparr>"
    by blast
  then have b: "Memory_updateProject 9000 (js ''p2'') emptyProjectPatch ?st =
       (Some (example_api_v1 \<lparr> p_updatedAt := 9000 \<rparr>),
        example_store [example_api, example_api_v1 \<lparr> p_updatedAt := 9000 \<rparr>]
          [] DEFAULT_SETTINGS)"
    by (simp add: example_store_def)
  from update_merges_patch [of _ ?se _ 9000 _ "js ''e1''" 1 emptyEndpointPatch,
      THEN conjunct2, THEN mp, OF h2]
  obtain v where
    v: "Memory_updateEndpoint 9000 (js ''e1'') emptyEndpointPatch ?se =
          (Some v, ?se \<lparr> sd_endpoints := (sd_endpoints ?se)[1 := v] \<rparr>)"
       "v = (sd_endpoints ?se ! 1) \<lparr> e_updatedAt := 9000 \<rparr>"
    by blast
  then have c: "Memory_updateEndpoint 9000 (js ''e1'') emptyEndpointPatch ?se =
       (Some (example_users \<lparr> e_updatedAt := 9000 \<rparr>),
        example_store [] [example_root, example_users \<lparr> e_updatedAt := 9000 \<rparr>]
          DEFAULT_SETTINGS)"
    by (simp add: example_store_def)
  from h1 a b h2 c show ?thesis
    by blast
qed

text \<open>
  Claim C9 as stated fails for \<open>createdAt\<close>: a patch that carries \<open>createdAt: 0\<close> replaces
  the stored creation time 1000.
\<close>

theorem update_createdAt_counterexample:
  "map_option p_createdAt
     (fst (Memory_updateProject 5000 (js ''p1'')
             (emptyProjectPatch \<lparr> pp_createdAt := Some 0 \<rparr>)
             (example_store [example_api] [] DEFAULT_SETTINGS))) = Some 0
   \<and> p_createdAt example_api = 1000"
  by (simp add: Memory_updateProject_def spreadProject_def overlay_def emptyProjectPatch_def
      Let_def example_store_def example_api_def js_simps)

section \<open>CORS: shared facts\<close>

lemma lookup_header:
  "map_of (resHeaders (header k v c)) k' = (if k' = k then Some v else map_of (resHeaders c) k')"
  by (simp add: header_def update_conv')

lemma req_header [simp]: "req (header k v c) = req c"
  by (simp add: header_def)

lemma requestOrigin_header [simp]: "requestOrigin (header k v c) = requestOrigin c"
  by (simp add: requestOrigin_def)

lemma requestOrigin_nonempty: "requestOrigin c \<noteq> []"
  by (simp add: requestOrigin_def or_else_def js_simps split: option.splits)

lemma header_names_distinct:
  "js ''Access-Control-Allow-Origin'' \<noteq> js ''Access-Control-Allow-Credentials''"
  "js ''Access-Control-Allow-Origin'' \<noteq> js ''Access-Control-Allow-Methods''"
  "js ''Access-Control-Allow-Origin'' \<noteq> js ''Access-Control-Allow-Headers''"
  "js ''Access-Control-Allow-Origin'' \<noteq> js ''Access-Control-Max-Age''"
  "js ''Access-Control-Allow-Credentials'' \<noteq> js ''Access-Control-Allow-Methods''"
  "js ''Access-Control-Allow-Credentials'' \<noteq> js ''Access-Control-Allow-Headers''"
  "js ''Access-Control-Allow-Credentials'' \<noteq> js ''Access-Control-Max-Age''"
  by (simp_all add: js_simps)

text \<open>
  The dynamic middleware, case by case: one context \<open>c'\<close>, the same for every \<open>next\<close>,
  carries the headers; a request that is not allowed gets the 403 text, an allowed
  \<open>OPTIONS\<close> request the empty 204, and any other allowed request is handed to \<open>next\<close>.
\<close>

lemma corsMiddleware_cases:
  "\<exists>c'. (\<forall>next. corsMiddleware cfg next c =
            (if arrayIncludes (corsOrigins cfg) (js ''*'') \<or>
                arrayIncludes (corsOrigins cfg) (requestOrigin c)
             then (if req_method (req c) = js ''OPTIONS'' then (c', empty_response 204)
                   else next c')
             else (c, text_response (js ''Origin not allowed'') 403))) \<and>
        req c' = req c \<and>
        map_of (resHeaders c') (js ''Access-Control-Allow-Origin'') =
          Some (if arrayIncludes (corsOrigins cfg) (js ''*'') then js ''*''
                else requestOrigin c) \<and>
        map_of (resHeaders c') (js ''Access-Control-Allow-Credentials'') =
          (if arrayIncludes (corsOrigins cfg) (js ''*'') \<or> requestOrigin c = js ''*''
           then map_of (resHeaders c) (js ''Access-Control-Allow-Credentials'')
           else Some (js ''true''))"
proof -
  let ?allowed = "if arrayIncludes (corsOrigins cfg) (js ''*'') then js ''*'' else requestOrigin c"
  let ?c4 = "header (js ''Access-Control-Max-Age'') (js ''86400'')
        (header (js ''Access-Control-Allow-Headers'') (join (js '', '') (corsHeaders cfg))
          (header (js ''Access-Control-Allow-Methods'') (join (js '', '') (corsMethods cfg))
            (header (js ''Access-Control-Allow-Origin'') ?allowed c)))"
  let ?c5 = "if ?allowed \<noteq> js ''*''
             then header (js ''Access-Control-Allow-Credentials'') (js ''true'') ?c4 else ?c4"
  have run: "\<forall>next. corsMiddleware cfg next c =
            (if arrayIncludes (corsOrigins cfg) (js ''*'') \<or>
                arrayIncludes (corsOrigins cfg) (requestOrigin c)
             then (if req_method (req c) = js ''OPTIONS'' then (?c5, empty_response 204)
                   else next ?c5)
             else (c, text_response (js ''Origin not allowed'') 403))"
    by (simp add: corsMiddleware_def Let_def)
  have r: "req ?c5 = req c"
    by simp
  have o: "map_of (resHeaders ?c5) (js ''Access-Control-Allow-Origin'') = Some ?allowed"
    using header_names_distinct by (simp add: lookup_header)
  have cr: "map_of (resHeaders ?c5) (js ''Access-Control-Allow-Credentials'') =
          (if arrayIncludes (corsOrigins cfg) (js ''*'') \<or> requestOrigin c = js ''*''
           then map_of (resHeaders c) (js ''Access-Control-Allow-Credentials'')
           else Some (js ''true''))"
    using header_names_distinct by (simp add: lookup_header)
  from run r o cr show ?thesis by blast
qed

text \<open>
  The static middleware, case by case: the context \<open>c'\<close> is the same for every
  \<open>next\<close>; an \<open>OPTIONS\<close> request gets the empty 204 and every other request is handed
  to \<open>next\<close>. The listed \<open>*\<close> is tested before the request's own origin.
\<close>

lemma staticCorsMiddleware_cases:
  "\<exists>c'. (\<forall>next. staticCorsMiddleware options next c =
            (if req_method (req c) = js ''OPTIONS'' then (c', empty_response 204)
             else next c')) \<and>
        req c' = req c \<and>
        (if arrayIncludes (overlay [js ''*''] (opt_origins options)) (js ''*'')
         then map_of (resHeaders c') (js ''Access-Control-Allow-Origin'') = Some (js ''*'') \<and>
              map_of (resHeaders c') (js ''Access-Control-Allow-Credentials'') =
                map_of (resHeaders c) (js ''Access-Control-Allow-Credentials'')
         else if arrayIncludes (overlay [js ''*''] (opt_origins options)) (requestOrigin c)
         then map_of (resHeaders c') (js ''Access-Control-Allow-Origin'') =
                Some (requestOrigin c) \<and>
              map_of (resHeaders c') (js ''Access-Control-Allow-Credentials'') =
                Some (js ''true'')
         else c' = c)"
proof -
  let ?origins = "overlay [js ''*''] (opt_origins options)"
  let ?methods = "join (js '', '')
      (overlay [js ''GET'', js ''POST'', js ''PUT'', js ''DELETE'', js ''OPTIONS'']
         (opt_methods options))"
  let ?headers = "join (js '', '')
      (overlay [js ''Content-Type'', js ''Authorization''] (opt_headers options))"
  let ?age = "decimal (overlay 86400 (opt_maxAge options))"
  let ?base = "\<lambda>allowed. header (js ''Access-Control-Max-Age'') ?age
        (header (js ''Access-Control-Allow-Headers'') ?headers
          (header (js ''Access-Control-Allow-Methods'') ?methods
            (header (js ''Access-Control-Allow-Origin'') allowed c)))"
  consider (star) "arrayIncludes ?origins (js ''*'')"
    | (listed) "\<not> arrayIncludes ?origins (js ''*'')" "arrayIncludes ?origins (requestOrigin c)"
    | (none) "\<not> arrayIncludes ?origins (js ''*'')" "\<not> arrayIncludes ?origins (requestOrigin c)"
    by blast
  then show ?thesis
  proof cases
    case star
    have "\<forall>next. staticCorsMiddleware options next c =
            (if req_method (req c) = js ''OPTIONS'' then (?base (js ''*''), empty_response 204)
             else next (?base (js ''*'')))"
      using star by (simp add: staticCorsMiddleware_def Let_def js_simps)
    moreover have "req (?base (js ''*'')) = req c"
      by simp
    moreover have "map_of (resHeaders (?base (js ''*''))) (js ''Access-Control-Allow-Origin'') =
        Some (js ''*'')"
      using header_names_distinct by (simp add: lookup_header)
    moreover have
      "map_of (resHeaders (?base (js ''*''))) (js ''Access-Control-Allow-Credentials'') =
        map_of (resHeaders c) (js ''Access-Control-Allow-Credentials'')"
      using header_names_distinct by (simp add: lookup_header)
    ultimately show ?thesis
      using star by (intro exI [of _ "?base (js ''*'')"]) simp
  next
    case listed
    let ?c' = "header (js ''Access-Control-Allow-Credentials'') (js ''true'')
                 (?base (requestOrigin c))"
    from listed have ne: "requestOrigin c \<noteq> js ''*''"
      by auto
    have "\<forall>next. staticCorsMiddleware options next c =
            (if req_method (req c) = js ''OPTIONS'' then (?c', empty_response 204)
             else next ?c')"
      using listed ne requestOrigin_nonempty [of c]
      by (simp add: staticCorsMiddleware_def Let_def)
    moreover have "req ?c' = req c"
      by simp
    moreover have "map_of (resHeaders ?c') (js ''Access-Control-Allow-Origin'') =
        Some (requestOrigin c)"
      using header_names_distinct by (simp add: lookup_header)
    moreover have "map_of (resHeaders ?c') (js ''Access-Control-Allow-Credentials'') =
        Some (js ''true'')"
      by (simp add: lookup_header)
    ultimately show ?thesis
      using listed by (intro exI [of _ ?c']) simp
  next
    case none
    have "\<forall>next. staticCorsMiddleware options next c =
            (if req_method (req c) = js ''OPTIONS'' then (c, empty_response 204) else next c)"
      using none by (simp add: staticCorsMiddleware_def Let_def)
    then show ?thesis
      using none by (intro exI [of _ c]) simp
  qed
qed

lemma header_names_distinct_more:
  "js ''Access-Control-Allow-Methods'' \<noteq> js ''Access-Control-Allow-Headers''"
  "js ''Access-Control-Allow-Methods'' \<noteq> js ''Access-Control-Max-Age''"
  "js ''Access-Control-Allow-Headers'' \<noteq> js ''Access-Control-Max-Age''"
  by (simp_all add: js_simps)

text \<open>
  The answer of the static middleware to an \<open>OPTIONS\<close> request: the empty 204 for every
  \<open>next\<close>, and the context with the headers the middleware computed.
\<close>

lemma staticCorsMiddleware_preflight:
  assumes "req_method (req c) = js ''OPTIONS''"
  shows "\<exists>c'. (\<forall>next. staticCorsMiddleware options next c = (c', empty_response 204)) \<and>
        req c' = req c \<and>
        (if arrayIncludes (overlay [js ''*''] (opt_origins options)) (js ''*'') \<or>
            arrayIncludes (overlay [js ''*''] (opt_origins options)) (requestOrigin c)
         then map_of (resHeaders c') (js ''Access-Control-Allow-Origin'') =
                Some (if arrayIncludes (overlay [js ''*''] (opt_origins options)) (js ''*'')
                      then js ''*'' else requestOrigin c) \<and>
              map_of (resHeaders c') (js ''Access-Control-Allow-Methods'') =
                Some (join (js '', '')
                  (overlay [js ''GET'', js ''POST'', js ''PUT'', js ''DELETE'', js ''OPTIONS'']
                     (opt_methods options))) \<and>
              map_of (resHeaders c') (js ''Access-Control-Allow-Headers'') =
                Some (join (js '', '')
                  (overlay [js ''Content-Type'', js ''Authorization''] (opt_headers options))) \<and>
              map_of (resHeaders c') (js ''Access-Control-Allow-Credentials'') =
                (if arrayIncludes (overlay [js ''*''] (opt_origins options)) (js ''*'')
                 then map_of (resHeaders c) (js ''Access-Control-Allow-Credentials'')
                 else Some (js ''true''))
         else c' = c)"
proof -
  let ?origins = "overlay [js ''*''] (opt_origins options)"
  let ?methods = "join (js '', '')
      (overlay [js ''GET'', js ''POST'', js ''PUT'', js ''DELETE'', js ''OPTIONS'']
         (opt_methods options))"
  let ?headers = "join (js '', '')
      (overlay [js ''Content-Type'', js ''Authorization''] (opt_headers options))"
  let ?age = "decimal (overlay 86400 (opt_maxAge options))"
  let ?base = "\<lambda>allowed. header (js ''Access-Control-Max-Age'') ?age
        (header (js ''Access-Control-Allow-Headers'') ?headers
          (header (js ''Access-Control-Allow-Methods'') ?methods
            (header (js ''Access-Control-Allow-Origin'') allowed c)))"
  have base: "req (?base a) = req c"
    "map_of (resHeaders (?base a)) (js ''Access-Control-Allow-Origin'') = Some a"
    "map_of (resHeaders (?base a)) (js ''Access-Control-Allow-Methods'') = Some ?methods"
    "map_of (resHeaders (?base a)) (js ''Access-Control-Allow-Headers'') = Some ?headers"
    "map_of (resHeaders (?base a)) (js ''Access-Control-Allow-Credentials'') =
       map_of (resHeaders c) (js ''Access-Control-Allow-Credentials'')" for a
    using header_names_distinct header_names_distinct_more
    by (simp_all add: lookup_header)
  consider (star) "arrayIncludes ?origins (js ''*'')"
    | (listed) "\<not> arrayIncludes ?origins (js ''*'')" "arrayIncludes ?origins (requestOrigin c)"
    | (none) "\<not> arrayIncludes ?origins (js ''*'')" "\<not> arrayIncludes ?origins (requestOrigin c)"
    by blast
  then show ?thesis
  proof cases
    case star
    have "\<forall>next. staticCorsMiddleware options next c = (?base (js ''*''), empty_response 204)"
      using star assms by (simp add: staticCorsMiddleware_def Let_def js_simps)
    with base [of "js ''*''"] show ?thesis
      using star by (intro exI [of _ "?base (js ''*'')"]) simp
  next
    case listed
    let ?c' = "header (js ''Access-Control-Allow-Credentials'') (js ''true'')
                 (?base (requestOrigin c))"
    from listed have ne: "requestOrigin c \<noteq> js ''*''"
      by auto
    have "\<forall>next. staticCorsMiddleware options next c = (?c', empty_response 204)"
      using listed ne assms requestOrigin_nonempty [of c]
      by (simp add: staticCorsMiddleware_def Let_def)
    moreover have "req ?c' = req c"
      by simp
    moreover have "map_of (resHeaders ?c') (js ''Access-Control-Allow-Origin'') =
        Some (requestOrigin c)"
      "map_of (resHeaders ?c') (js ''Access-Control-Allow-Methods'') = Some ?methods"
      "map_of (resHeaders ?c') (js ''Access-Control-Allow-Headers'') = Some ?headers"
      "map_of (resHeaders ?c') (js ''Access-Control-Allow-Credentials'') = Some (js ''true'')"
      using header_names_distinct header_names_distinct_more
      by (simp_all add: lookup_header)
    ultimately show ?thesis
      using listed by (intro exI [of _ ?c']) simp
  next
    case none
    have "\<forall>next. staticCorsMiddleware options next c = (c, empty_response 204)"
      using none assms by (simp add: staticCorsMiddleware_def Let_def)
    then show ?thesis
      using none by (intro exI [of _ c]) simp
  qed
qed

text \<open>
  The answer of the dynamic middleware to an \<open>OPTIONS\<close> request: for every \<open>next\<close>, the
  empty 204 with the computed headers in the context when the origin is allowed, the 403
  text otherwise.
\<close>

lemma corsMiddleware_preflight:
  assumes "req_method (req c) = js ''OPTIONS''"
  shows "\<exists>c'. (\<forall>next. corsMiddleware cfg next c =
                   (if arrayIncludes (corsOrigins cfg) (js ''*'') \<or>
                       arrayIncludes (corsOrigins cfg) (requestOrigin c)
                    then (c', empty_response 204)
                    else (c, text_response (js ''Origin not allowed'') 403))) \<and>
        req c' = req c \<and>
        map_of (resHeaders c') (js ''Access-Control-Allow-Origin'') =
          Some (if arrayIncludes (corsOrigins cfg) (js ''*'') then js ''*''
                else requestOrigin c) \<and>
        map_of (resHeaders c') (js ''Access-Control-Allow-Methods'') =
          Some (join (js '', '') (corsMethods cfg)) \<and>
        map_of (resHeaders c') (js ''Access-Control-Allow-Headers'') =
          Some (join (js '', '') (corsHeaders cfg)) \<and>
        map_of (resHeaders c') (js ''Access-Control-Max-Age'') = Some (js ''86400'') \<and>
        map_of (resHeaders c') (js ''Access-Control-Allow-Credentials'') =
          (if arrayIncludes (corsOrigins cfg) (js ''*'') \<or> requestOrigin c = js ''*''
           then map_of (resHeaders c) (js ''Access-Control-Allow-Credentials'')
           else Some (js ''true''))"
proof -
  let ?allowed = "if arrayIncludes (corsOrigins cfg) (js ''*'') then js ''*'' else requestOrigin c"
  let ?c4 = "header (js ''Access-Control-Max-Age'') (js ''86400'')
        (header (js ''Access-Control-Allow-Headers'') (join (js '', '') (corsHeaders cfg))
          (header (js ''Access-Control-Allow-Methods'') (join (js '', '') (corsMethods cfg))
            (header (js ''Access-Control-Allow-Origin'') ?allowed c)))"
  let ?c5 = "if ?allowed \<noteq> js ''*''
             then header (js ''Access-Control-Allow-Credentials'') (js ''true'') ?c4 else ?c4"
  have run: "\<forall>next. corsMiddleware cfg next c =
            (if arrayIncludes (corsOrigins cfg) (js ''*'') \<or>
                arrayIncludes (corsOrigins cfg) (requestOrigin c)
             then (?c5, empty_response 204)
             else (c, text_response (js ''Origin not allowed'') 403))"
    using assms by (simp add: corsMiddleware_def Let_def)
  have r: "req ?c5 = req c"
    by simp
  have o: "map_of (resHeaders ?c5) (js ''Access-Control-Allow-Origin'') = Some ?allowed"
    using header_names_distinct by (simp add: lookup_header)
  have m: "map_of (resHeaders ?c5) (js ''Access-Control-Allow-Methods'') =
      Some (join (js '', '') (corsMethods cfg))"
    using header_names_distinct header_names_distinct_more by (simp add: lookup_header)
  have h: "map_of (resHeaders ?c5) (js ''Access-Control-Allow-Headers'') =
      Some (join (js '', '') (corsHeaders cfg))"
    using header_names_distinct header_names_distinct_more by (simp add: lookup_header)
  have a: "map_of (resHeaders ?c5) (js ''Access-Control-Max-Age'') = Some (js ''86400'')"
    using header_names_distinct header_names_distinct_more by (simp add: lookup_header)
  have cr: "map_of (resHeaders ?c5) (js ''Access-Control-Allow-Credentials'') =
          (if arrayIncludes (corsOrigins cfg) (js ''*'') \<or> requestOrigin c = js ''*''
           then map_of (resHeaders c) (js ''Access-Control-Allow-Credentials'')
           else Some (js ''true''))"
    using header_names_distinct by (simp add: lookup_header)
  from run r o m h a cr show ?thesis
    by (intro exI [of _ ?c5] conjI)
qed

lemma example_origins_distinct:
  "js ''https://a.com'' \<noteq> js ''*''" "js ''https://b.com'' \<noteq> js ''*''"
  "js ''https://b.com'' \<noteq> js ''https://a.com''" "js ''*'' \<noteq> []"
  "js ''GET'' \<noteq> js ''OPTIONS''"
  by (simp_all add: js_simps)

section \<open>Dynamic CORS: rejection\<close>

text \<open>
  Claim C5. When \<open>*\<close> is not listed in the settings read for the request and the value
  of the request's \<open>Origin\<close> header, if it has one, is not listed either, the dynamic
  middleware answers 403 \<open>Origin not allowed\<close> whatever the rest of the chain is: \<open>next\<close>
  is not run. In the mock route, where the settings are read from the storage and the
  rest of the chain is the mock responder, the answer is that 403.
\<close>

theorem dynamic_cors_rejects_unlisted_origin:
  assumes "\<not> arrayIncludes (corsOrigins cfg) (js ''*'')"
    and "case req_origin (req c) of
           None \<Rightarrow> True | Some v \<Rightarrow> \<not> arrayIncludes (corsOrigins cfg) v"
  shows "(\<forall>next. corsMiddleware cfg next c =
            (c, text_response (js ''Origin not allowed'') 403))
       \<and> mockRoute (st \<lparr> sd_settings := cfg \<rparr>) c =
           (c, text_response (js ''Origin not allowed'') 403)"
proof -
  have "\<not> arrayIncludes (corsOrigins cfg) (requestOrigin c)"
    using assms by (auto simp: requestOrigin_def or_else_def split: option.splits)
  with assms(1) corsMiddleware_cases [of cfg c]
  have "\<forall>next. corsMiddleware cfg next c = (c, text_response (js ''Origin not allowed'') 403)"
    by auto
  then show ?thesis
    by (simp add: mockRoute_def Memory_getSettings_def)
qed

theorem dynamic_cors_rejects_unlisted_origin_witness:
  "\<not> arrayIncludes (corsOrigins example_settings) (js ''*'')
   \<and> \<not> arrayIncludes (corsOrigins example_settings) (js ''https://b.com'')
   \<and> mockRoute (example_store [example_api_v1] [example_users] example_settings)
       (example_context (js ''GET'') (js ''/api/v1/users'') (Some (js ''https://b.com''))) =
       (example_context (js ''GET'') (js ''/api/v1/users'') (Some (js ''https://b.com'')),
        text_response (js ''Origin not allowed'') 403)
   \<and> res_status (snd (mockRoute
        (example_store [example_api_v1] [example_users] example_settings)
        (example_context (js ''GET'') (js ''/api/v1/users'') (Some (js ''https://a.com''))))) =
       200"
proof -
  let ?c = "example_context (js ''GET'') (js ''/api/v1/users'') (Some (js ''https://b.com''))"
  let ?st = "example_store [example_api_v1] [example_users] example_settings"
  have h1: "\<not> arrayIncludes (corsOrigins example_settings) (js ''*'')"
    using example_origins_distinct
    by (simp add: arrayIncludes_def example_settings_def DEFAULT_SETTINGS_def)
  have h2: "\<not> arrayIncludes (corsOrigins example_settings) (js ''https://b.com'')"
    using example_origins_distinct
    by (simp add: arrayIncludes_def example_settings_def DEFAULT_SETTINGS_def)
  then have h3: "case req_origin (req ?c) of
      None \<Rightarrow> True | Some v \<Rightarrow> \<not> arrayIncludes (corsOrigins example_settings) v"
    by (simp add: example_context_def)
  have st: "?st \<lparr> sd_settings := example_settings \<rparr> = ?st"
    by (simp add: example_store_def)
  from dynamic_cors_rejects_unlisted_origin [OF h1 h3, of ?st]
  have rejected: "mockRoute ?st ?c = (?c, text_response (js ''Origin not allowed'') 403)"
    by (simp add: st)
  have served: "res_status (snd (mockRoute ?st
      (example_context (js ''GET'') (js ''/api/v1/users'') (Some (js ''https://a.com''))))) = 200"
    using example_origins_distinct
    by (simp add: mockRoute_def corsMiddleware_def mockCatchAll_def Memory_getSettings_def
        Memory_getEndpointByPath_def matchingProject_def requestOrigin_def or_else_def
        arrayIncludes_def reservedPath_def startsWith_def substring_def json_response_def
        Let_def example_store_def example_settings_def DEFAULT_SETTINGS_def
        example_context_def example_api_v1_def example_users_def example_ok_def js_simps)
  from h1 h2 rejected served show ?thesis
    by blast
qed

section \<open>Preflight requests\<close>

text \<open>
  Claim C6. For a request whose method is \<open>OPTIONS\<close>, whatever the rest of the chain
  is (the management routes, the mock responder): the static middleware answers the
  empty 204 and leaves the context with the headers it computed, that is
  \<open>Access-Control-Allow-Origin\<close> (\<open>*\<close> when \<open>*\<close> is listed, else the listed origin of the
  request), \<open>Access-Control-Allow-Methods\<close>, \<open>Access-Control-Allow-Headers\<close> and, for a
  specific origin, \<open>Access-Control-Allow-Credentials\<close>, or with no header when the origin
  is not listed; the dynamic middleware answers the empty 204 when the origin is
  allowed, with those headers and \<open>Access-Control-Max-Age\<close> set in the context, and the
  403 text otherwise. Hence the mock route answers as the middleware does for any rest
  of the chain, with 204 or 403, and its answer does not depend on the stored projects
  and endpoints: no stored endpoint is served.
\<close>

theorem options_preflight_short_circuit:
  assumes "req_method (req c) = js ''OPTIONS''"
  shows "(\<exists>c'. (\<forall>next. staticCorsMiddleware options next c = (c', empty_response 204)) \<and>
            req c' = req c \<and>
            (if arrayIncludes (overlay [js ''*''] (opt_origins options)) (js ''*'') \<or>
                arrayIncludes (overlay [js ''*''] (opt_origins options)) (requestOrigin c)
             then map_of (resHeaders c') (js ''Access-Control-Allow-Origin'') =
                    Some (if arrayIncludes (overlay [js ''*''] (opt_origins options)) (js ''*'')
                          then js ''*'' else requestOrigin c) \<and>
                  map_of (resHeaders c') (js ''Access-Control-Allow-Methods'') =
                    Some (join (js '', '')
                      (overlay [js ''GET'', js ''POST'', js ''PUT'', js ''DELETE'', js ''OPTIONS'']
                         (opt_methods options))) \<and>
                  map_of (resHeaders c') (js ''Access-Control-Allow-Headers'') =
                    Some (join (js '', '')
                      (overlay [js ''Content-Type'', js ''Authorization'']
                         (opt_headers options))) \<and>
                  map_of (resHeaders c') (js ''Access-Control-Allow-Credentials'') =
                    (if arrayIncludes (overlay [js ''*''] (opt_origins options)) (js ''*'')
                     then map_of (resHeaders c) (js ''Access-Control-Allow-Credentials'')
                     else Some (js ''true''))
             else c' = c))
       \<and> (\<exists>c'. (\<forall>next. corsMiddleware cfg next c =
                   (if arrayIncludes (corsOrigins cfg) (js ''*'') \<or>
                       arrayIncludes (corsOrigins cfg) (requestOrigin c)
                    then (c', empty_response 204)
                    else (c, text_response (js ''Origin not allowed'') 403))) \<and>
                req c' = req c \<and>
                map_of (resHeaders c') (js ''Access-Control-Allow-Origin'') =
                  Some (if arrayIncludes (corsOrigins cfg) (js ''*'') then js ''*''
                        else requestOrigin c) \<and>
                map_of (resHeaders c') (js ''Access-Control-Allow-Methods'') =
                  Some (join (js '', '') (corsMethods cfg)) \<and>
                map_of (resHeaders c') (js ''Access-Control-Allow-Headers'') =
                  Some (join (js '', '') (corsHeaders cfg)) \<and>
                map_of (resHeaders c') (js ''Access-Control-Max-Age'') = Some (js ''86400'') \<and>
                map_of (resHeaders c') (js ''Access-Control-Allow-Credentials'') =
                  (if arrayIncludes (corsOrigins cfg) (js ''*'') \<or> requestOrigin c = js ''*''
                   then map_of (resHeaders c) (js ''Access-Control-Allow-Credentials'')
                   else Some (js ''true'')))
       \<and> (\<forall>next. mockRoute st c = corsMiddleware (sd_settings st) next c)
       \<and> snd (mockRoute st c) =
           (if arrayIncludes (corsOrigins (sd_settings st)) (js ''*'') \<or>
               arrayIncludes (corsOrigins (sd_settings st)) (requestOrigin c)
            then empty_response 204
            else text_response (js ''Origin not allowed'') 403)
       \<and> snd (mockRoute (st \<lparr> sd_projects := ps, sd_endpoints := es \<rparr>) c) =
           snd (mockRoute st c)"
proof -
  note static = staticCorsMiddleware_preflight [OF assms, of options]
  note dynamic = corsMiddleware_preflight [OF assms, of cfg]
  have any: "corsMiddleware (sd_settings s) k c = corsMiddleware (sd_settings s) k' c"
    for s k k'
  proof -
    from corsMiddleware_preflight [OF assms, of "sd_settings s"]
    obtain c' where run: "\<forall>next. corsMiddleware (sd_settings s) next c =
                   (if arrayIncludes (corsOrigins (sd_settings s)) (js ''*'') \<or>
                       arrayIncludes (corsOrigins (sd_settings s)) (requestOrigin c)
                    then (c', empty_response 204)
                    else (c, text_response (js ''Origin not allowed'') 403))"
      by blast
    from run [THEN spec, of k] run [THEN spec, of k'] show ?thesis
      by (rule trans [OF _ sym])
  qed
  have same: "\<forall>next. mockRoute st c = corsMiddleware (sd_settings st) next c"
    using any [of st] by (simp add: mockRoute_def Memory_getSettings_def)
  have route: "snd (mockRoute s c) =
           (if arrayIncludes (corsOrigins (sd_settings s)) (js ''*'') \<or>
               arrayIncludes (corsOrigins (sd_settings s)) (requestOrigin c)
            then empty_response 204
            else text_response (js ''Origin not allowed'') 403)" for s
    using corsMiddleware_preflight [OF assms, of "sd_settings s"]
    by (auto simp: mockRoute_def Memory_getSettings_def)
  have "snd (mockRoute (st \<lparr> sd_projects := ps, sd_endpoints := es \<rparr>) c) =
        snd (mockRoute st c)"
    by (simp add: route)
  with static dynamic same route [of st] show ?thesis
    by (intro conjI)
qed

theorem options_preflight_short_circuit_witness:
  "req_method (req (example_context (js ''OPTIONS'') (js ''/api/v1/users'')
       (Some (js ''https://a.com'')))) = js ''OPTIONS''
   \<and> Memory_getEndpointByPath (js ''/api/v1/users'') [] (js ''OPTIONS'')
       (example_store [example_api_v1] [example_preflight] example_settings) =
       Some example_preflight
   \<and> snd (mockRoute (example_store [example_api_v1] [example_preflight] example_settings)
       (example_context (js ''OPTIONS'') (js ''/api/v1/users'') (Some (js ''https://a.com'')))) =
       empty_response 204
   \<and> map_of (resHeaders (fst
       (mockRoute (example_store [example_api_v1] [example_preflight] example_settings)
         (example_context (js ''OPTIONS'') (js ''/api/v1/users'') (Some (js ''https://a.com''))))))
       (js ''Access-Control-Allow-Origin'') = Some (js ''https://a.com'')
   \<and> snd (staticCorsMiddleware noOptions example_admin
       (example_context (js ''OPTIONS'') (js ''/api/v1/users'') (Some (js ''https://a.com'')))) =
       empty_response 204
   \<and> map_of (resHeaders (fst (staticCorsMiddleware noOptions example_admin
       (example_context (js ''OPTIONS'') (js ''/api/v1/users'') (Some (js ''https://a.com''))))))
       (js ''Access-Control-Allow-Origin'') = Some (js ''*'')"
proof -
  let ?c = "example_context (js ''OPTIONS'') (js ''/api/v1/users'') (Some (js ''https://a.com''))"
  let ?st = "example_store [example_api_v1] [example_preflight] example_settings"
  have h: "req_method (req ?c) = js ''OPTIONS''"
    by (simp add: example_context_def)
  have stored: "Memory_getEndpointByPath (js ''/api/v1/users'') [] (js ''OPTIONS'') ?st =
      Some example_preflight"
    by (simp add: Memory_getEndpointByPath_def matchingProject_def startsWith_def
        substring_def or_else_def example_store_def example_api_v1_def
        example_preflight_def js_simps)
  have origin: "requestOrigin ?c = js ''https://a.com''"
    by (simp add: requestOrigin_def or_else_def example_context_def js_simps)
  have cfg: "sd_settings ?st = example_settings"
    by (simp add: example_store_def)
  have listed: "arrayIncludes (corsOrigins example_settings) (js ''https://a.com'')"
    and unstarred: "\<not> arrayIncludes (corsOrigins example_settings) (js ''*'')"
    using example_origins_distinct
    by (simp_all add: arrayIncludes_def example_settings_def DEFAULT_SETTINGS_def)
  have star: "arrayIncludes (overlay [js ''*''] (opt_origins noOptions)) (js ''*'')"
    by (simp add: arrayIncludes_def overlay_def noOptions_def)
  note inst = options_preflight_short_circuit [OF h, of noOptions example_settings ?st "[]" "[]"]
  from inst have route: "snd (mockRoute ?st ?c) = empty_response 204"
    using listed by (simp add: cfg origin)
  from inst obtain d where
    d: "\<forall>next. corsMiddleware example_settings next ?c = (d, empty_response 204)"
      "map_of (resHeaders d) (js ''Access-Control-Allow-Origin'') = Some (js ''https://a.com'')"
    using listed unstarred by (auto simp: origin)
  from inst have "mockRoute ?st ?c = corsMiddleware example_settings example_admin ?c"
    by (simp add: cfg)
  with d have dyn: "map_of (resHeaders (fst (mockRoute ?st ?c)))
      (js ''Access-Control-Allow-Origin'') = Some (js ''https://a.com'')"
    by simp
  from inst obtain s where
    s: "\<forall>next. staticCorsMiddleware noOptions next ?c = (s, empty_response 204)"
      "map_of (resHeaders s) (js ''Access-Control-Allow-Origin'') = Some (js ''*'')"
    using star by auto
  then have static: "snd (staticCorsMiddleware noOptions example_admin ?c) = empty_response 204"
    "map_of (resHeaders (fst (staticCorsMiddleware noOptions example_admin ?c)))
       (js ''Access-Control-Allow-Origin'') = Some (js ''*'')"
    by simp_all
  from h stored route dyn static show ?thesis
    by (intro conjI)
qed

section \<open>Static CORS: the allowed origin\<close>

text \<open>
  Claim C7, as amended. In static mode, for every request: if \<open>*\<close> is listed the
  allowed origin is \<open>*\<close> and the middleware does not set
  \<open>Access-Control-Allow-Credentials\<close>; else if the request's origin is listed the
  allowed origin is that origin and \<open>Access-Control-Allow-Credentials: true\<close> is set;
  else no header is set. In every case the middleware answers no 403: an \<open>OPTIONS\<close>
  request gets the empty 204 and any other request goes on to the handler.
\<close>

theorem static_cors_decision:
  "\<exists>c'. (\<forall>next. staticCorsMiddleware options next c =
            (if req_method (req c) = js ''OPTIONS'' then (c', empty_response 204)
             else next c')) \<and>
        req c' = req c \<and>
        (if arrayIncludes (overlay [js ''*''] (opt_origins options)) (js ''*'')
         then map_of (resHeaders c') (js ''Access-Control-Allow-Origin'') = Some (js ''*'') \<and>
              map_of (resHeaders c') (js ''Access-Control-Allow-Credentials'') =
                map_of (resHeaders c) (js ''Access-Control-Allow-Credentials'')
         else if arrayIncludes (overlay [js ''*''] (opt_origins options)) (requestOrigin c)
         then map_of (resHeaders c') (js ''Access-Control-Allow-Origin'') =
                Some (requestOrigin c) \<and>
              map_of (resHeaders c') (js ''Access-Control-Allow-Credentials'') =
                Some (js ''true'')
         else c' = c)"
  by (rule staticCorsMiddleware_cases)

theorem static_cors_decision_witness:
  "map_of (resHeaders (fst (staticCorsMiddleware
       (noOptions \<lparr> opt_origins := Some [js ''https://a.com''] \<rparr>) example_admin
       (example_context (js ''GET'') (js ''/api/admin/projects'')
          (Some (js ''https://a.com'')))))) (js ''Access-Control-Allow-Origin'') =
     Some (js ''https://a.com'')
   \<and> map_of (resHeaders (fst (staticCorsMiddleware
       (noOptions \<lparr> opt_origins := Some [js ''https://a.com''] \<rparr>) example_admin
       (example_context (js ''GET'') (js ''/api/admin/projects'')
          (Some (js ''https://a.com'')))))) (js ''Access-Control-Allow-Credentials'') =
     Some (js ''true'')
   \<and> staticCorsMiddleware
       (noOptions \<lparr> opt_origins := Some [js ''https://a.com''] \<rparr>) example_admin
       (example_context (js ''GET'') (js ''/api/admin/projects'')
          (Some (js ''https://b.com''))) =
     (example_context (js ''GET'') (js ''/api/admin/projects'') (Some (js ''https://b.com'')),
      empty_response 200)"
proof -
  let ?o = "noOptions \<lparr> opt_origins := Some [js ''https://a.com''] \<rparr>"
  let ?a = "example_context (js ''GET'') (js ''/api/admin/projects'') (Some (js ''https://a.com''))"
  let ?b = "example_context (js ''GET'') (js ''/api/admin/projects'') (Some (js ''https://b.com''))"
  have get: "req_method (req ?a) \<noteq> js ''OPTIONS''" "req_method (req ?b) \<noteq> js ''OPTIONS''"
    using example_origins_distinct by (simp_all add: example_context_def)
  have oa: "requestOrigin ?a = js ''https://a.com''" and ob: "requestOrigin ?b = js ''https://b.com''"
    by (simp_all add: requestOrigin_def or_else_def example_context_def js_simps)
  have sel_a: "\<not> arrayIncludes (overlay [js ''*''] (opt_origins ?o)) (js ''*'')"
    "arrayIncludes (overlay [js ''*''] (opt_origins ?o)) (requestOrigin ?a)"
    using example_origins_distinct
    by (simp_all add: oa arrayIncludes_def overlay_def noOptions_def)
  have sel_b: "\<not> arrayIncludes (overlay [js ''*''] (opt_origins ?o)) (requestOrigin ?b)"
    using example_origins_distinct
    by (simp add: ob arrayIncludes_def overlay_def noOptions_def)
  from static_cors_decision [of ?o ?a] obtain c' where
    run0: "\<forall>next. staticCorsMiddleware ?o next ?a =
            (if req_method (req ?a) = js ''OPTIONS'' then (c', empty_response 204)
             else next c')"
    and dec: "if arrayIncludes (overlay [js ''*''] (opt_origins ?o)) (js ''*'')
         then map_of (resHeaders c') (js ''Access-Control-Allow-Origin'') = Some (js ''*'') \<and>
              map_of (resHeaders c') (js ''Access-Control-Allow-Credentials'') =
                map_of (resHeaders ?a) (js ''Access-Control-Allow-Credentials'')
         else if arrayIncludes (overlay [js ''*''] (opt_origins ?o)) (requestOrigin ?a)
         then map_of (resHeaders c') (js ''Access-Control-Allow-Origin'') =
                Some (requestOrigin ?a) \<and>
              map_of (resHeaders c') (js ''Access-Control-Allow-Credentials'') =
                Some (js ''true'')
         else c' = ?a"
    by blast
  from run0 get(1) have "fst (staticCorsMiddleware ?o example_admin ?a) = c'"
    by (simp add: example_admin_def)
  moreover from dec sel_a oa
  have "map_of (resHeaders c') (js ''Access-Control-Allow-Origin'') = Some (js ''https://a.com'')"
    and "map_of (resHeaders c') (js ''Access-Control-Allow-Credentials'') = Some (js ''true'')"
    by simp_all
  ultimately have listed:
    "map_of (resHeaders (fst (staticCorsMiddleware ?o example_admin ?a)))
       (js ''Access-Control-Allow-Origin'') = Some (js ''https://a.com'')"
    "map_of (resHeaders (fst (staticCorsMiddleware ?o example_admin ?a)))
       (js ''Access-Control-Allow-Credentials'') = Some (js ''true'')"
    by simp_all
  from static_cors_decision [of ?o ?b] obtain c'' where
    run1: "\<forall>next. staticCorsMiddleware ?o next ?b =
            (if req_method (req ?b) = js ''OPTIONS'' then (c'', empty_response 204)
             else next c'')"
    and dec1: "if arrayIncludes (overlay [js ''*''] (opt_origins ?o)) (js ''*'')
         then map_of (resHeaders c'') (js ''Access-Control-Allow-Origin'') = Some (js ''*'') \<and>
              map_of (resHeaders c'') (js ''Access-Control-Allow-Credentials'') =
                map_of (resHeaders ?b) (js ''Access-Control-Allow-Credentials'')
         else if arrayIncludes (overlay [js ''*''] (opt_origins ?o)) (requestOrigin ?b)
         then map_of (resHeaders c'') (js ''Access-Control-Allow-Origin'') =
                Some (requestOrigin ?b) \<and>
              map_of (resHeaders c'') (js ''Access-Control-Allow-Credentials'') =
                Some (js ''true'')
         else c'' = ?b"
    by blast
  from dec1 sel_a(1) sel_b have "c'' = ?b"
    by simp
  with run1 get(2) have unlisted: "staticCorsMiddleware ?o example_admin ?b = (?b, empty_response 200)"
    by (simp add: example_admin_def)
  from listed unlisted show ?thesis
    by blast
qed

text \<open>
  Claim C7 as stated fails when both \<open>*\<close> and the request's origin are listed: the
  origin \<open>https://a.com\<close> is literally listed, yet the allowed origin is \<open>*\<close> and no
  \<open>Access-Control-Allow-Credentials\<close> header is set.
\<close>

theorem static_cors_literal_origin_counterexample:
  "arrayIncludes [js ''*'', js ''https://a.com''] (js ''https://a.com'')
   \<and> map_of (resHeaders (fst (staticCorsMiddleware
       (noOptions \<lparr> opt_origins := Some [js ''*'', js ''https://a.com''] \<rparr>) example_admin
       (example_context (js ''GET'') (js ''/api/admin/projects'')
          (Some (js ''https://a.com'')))))) (js ''Access-Control-Allow-Origin'') =
     Some (js ''*'')
   \<and> map_of (resHeaders (fst (staticCorsMiddleware
       (noOptions \<lparr> opt_origins := Some [js ''*'', js ''https://a.com''] \<rparr>) example_admin
       (example_context (js ''GET'') (js ''/api/admin/projects'')
          (Some (js ''https://a.com'')))))) (js ''Access-Control-Allow-Credentials'') = None"
  using header_names_distinct example_origins_distinct
  by (simp add: staticCorsMiddleware_def requestOrigin_def or_else_def arrayIncludes_def
      overlay_def noOptions_def example_admin_def example_context_def lookup_header Let_def)

section \<open>Dynamic CORS: requests without an Origin header\<close>

text \<open>
  Claim C10. A request without an \<open>Origin\<close> header is treated as having the origin \<open>*\<close>.
  When \<open>*\<close> is not listed in the settings it is answered 403 whatever the rest of the
  chain is. When \<open>*\<close> is listed it is not rejected: the context carries
  \<open>Access-Control-Allow-Origin: *\<close>, the middleware sets no
  \<open>Access-Control-Allow-Credentials\<close>, and the request goes on to the rest of the chain
  (an \<open>OPTIONS\<close> request is answered 204 by the middleware, as every preflight is).
\<close>

theorem originless_request_uses_star:
  assumes "req_origin (req c) = None"
  shows "requestOrigin c = js ''*''
       \<and> (\<not> arrayIncludes (corsOrigins cfg) (js ''*'') \<longrightarrow>
            (\<forall>next. corsMiddleware cfg next c =
               (c, text_response (js ''Origin not allowed'') 403)))
       \<and> (arrayIncludes (corsOrigins cfg) (js ''*'') \<longrightarrow>
            (\<exists>c'. (\<forall>next. corsMiddleware cfg next c =
                      (if req_method (req c) = js ''OPTIONS'' then (c', empty_response 204)
                       else next c')) \<and>
                  req c' = req c \<and>
                  map_of (resHeaders c') (js ''Access-Control-Allow-Origin'') =
                    Some (js ''*'') \<and>
                  map_of (resHeaders c') (js ''Access-Control-Allow-Credentials'') =
                    map_of (resHeaders c) (js ''Access-Control-Allow-Credentials'')))"
proof -
  have star: "requestOrigin c = js ''*''"
    using assms by (simp add: requestOrigin_def)
  from corsMiddleware_cases [of cfg c] obtain c' where
    run: "\<forall>next. corsMiddleware cfg next c =
            (if arrayIncludes (corsOrigins cfg) (js ''*'') \<or>
                arrayIncludes (corsOrigins cfg) (requestOrigin c)
             then (if req_method (req c) = js ''OPTIONS'' then (c', empty_response 204)
                   else next c')
             else (c, text_response (js ''Origin not allowed'') 403))"
    and r: "req c' = req c"
    and o: "map_of (resHeaders c') (js ''Access-Control-Allow-Origin'') =
          Some (if arrayIncludes (corsOrigins cfg) (js ''*'') then js ''*''
                else requestOrigin c)"
    and cr: "map_of (resHeaders c') (js ''Access-Control-Allow-Credentials'') =
          (if arrayIncludes (corsOrigins cfg) (js ''*'') \<or> requestOrigin c = js ''*''
           then map_of (resHeaders c) (js ''Access-Control-Allow-Credentials'')
           else Some (js ''true''))"
    by blast
  have rejected: "\<forall>next. corsMiddleware cfg next c =
      (c, text_response (js ''Origin not allowed'') 403)"
    if "\<not> arrayIncludes (corsOrigins cfg) (js ''*'')"
    using run that star by simp
  have passed: "\<exists>c'. (\<forall>next. corsMiddleware cfg next c =
                      (if req_method (req c) = js ''OPTIONS'' then (c', empty_response 204)
                       else next c')) \<and>
                  req c' = req c \<and>
                  map_of (resHeaders c') (js ''Access-Control-Allow-Origin'') =
                    Some (js ''*'') \<and>
                  map_of (resHeaders c') (js ''Access-Control-Allow-Credentials'') =
                    map_of (resHeaders c) (js ''Access-Control-Allow-Credentials'')"
    if "arrayIncludes (corsOrigins cfg) (js ''*'')"
    using run r o cr that by (intro exI [of _ c']) simp
  from star rejected passed show ?thesis
    by blast
qed

theorem originless_request_uses_star_witness:
  "req_origin (req (example_context (js ''GET'') (js ''/api/v1/users'') None)) = None
   \<and> \<not> arrayIncludes (corsOrigins example_settings) (js ''*'')
   \<and> corsMiddleware example_settings
       (mockCatchAll (example_store [example_api_v1] [example_users] example_settings))
       (example_context (js ''GET'') (js ''/api/v1/users'') None) =
       (example_context (js ''GET'') (js ''/api/v1/users'') None,
        text_response (js ''Origin not allowed'') 403)
   \<and> arrayIncludes (corsOrigins DEFAULT_SETTINGS) (js ''*'')
   \<and> map_of (resHeaders (fst (corsMiddleware DEFAULT_SETTINGS example_admin
         (example_context (js ''GET'') (js ''/api/v1/users'') None))))
       (js ''Access-Control-Allow-Origin'') = Some (js ''*'')
   \<and> map_of (resHeaders (fst (corsMiddleware DEFAULT_SETTINGS example_admin
         (example_context (js ''GET'') (js ''/api/v1/users'') None))))
       (js ''Access-Control-Allow-Credentials'') = None"
proof -
  let ?c = "example_context (js ''GET'') (js ''/api/v1/users'') None"
  have h: "req_origin (req ?c) = None"
    by (simp add: example_context_def)
  have unlisted: "\<not> arrayIncludes (corsOrigins example_settings) (js ''*'')"
    using example_origins_distinct
    by (simp add: arrayIncludes_def example_settings_def DEFAULT_SETTINGS_def)
  have listed: "arrayIncludes (corsOrigins DEFAULT_SETTINGS) (js ''*'')"
    by (simp add: arrayIncludes_def DEFAULT_SETTINGS_def)
  have get: "req_method (req ?c) \<noteq> js ''OPTIONS''"
    using example_origins_distinct by (simp add: example_context_def)
  have none: "map_of (resHeaders ?c) (js ''Access-Control-Allow-Credentials'') = None"
    by (simp add: example_context_def)
  from originless_request_uses_star [OF h, of example_settings] unlisted
  have rejected: "corsMiddleware example_settings
       (mockCatchAll (example_store [example_api_v1] [example_users] example_settings)) ?c =
       (?c, text_response (js ''Origin not allowed'') 403)"
    by blast
  from originless_request_uses_star [OF h, of DEFAULT_SETTINGS] listed get none
  obtain c' where run: "\<forall>next. corsMiddleware DEFAULT_SETTINGS next ?c = next c'"
    and hs: "map_of (resHeaders c') (js ''Access-Control-Allow-Origin'') = Some (js ''*'')"
            "map_of (resHeaders c') (js ''Access-Control-Allow-Credentials'') = None"
    by auto
  from run have "fst (corsMiddleware DEFAULT_SETTINGS example_admin ?c) = c'"
    by (simp add: example_admin_def)
  with hs h unlisted listed rejected show ?thesis
    by simp
qed

section \<open>The Workers catch-all route and CORS\<close>

text \<open>
  The catch-all route of the Workers entry point answers a preflight request like the
  middlewares do, but it has no 403: a request from an origin that is not listed is
  resolved and served, without CORS headers.
\<close>

lemma workerFallback_preflight:
  assumes "req_method (req c) = js ''OPTIONS''"
  shows "snd (workerFallback cfg getEndpointByPath c) =
     (if startsWith (req_path (req c)) (js ''/api/admin'') then notFound
      else empty_response 204)"
  using assms by (simp add: workerFallback_def Let_def)

lemma workerFallback_serves_unlisted_origin:
  "\<not> arrayIncludes (corsOrigins example_settings) (js ''https://b.com'')
   \<and> workerFallback example_settings
       (\<lambda>path sub method. Memory_getEndpointByPath path sub method
          (example_store [example_api_v1] [example_users] example_settings))
       (example_context (js ''GET'') (js ''/api/v1/users'') (Some (js ''https://b.com''))) =
     (example_context (js ''GET'') (js ''/api/v1/users'') (Some (js ''https://b.com''))
        \<lparr> resHeaders := [(js ''Content-Type'', js ''application/json'')] \<rparr>,
      json_response (JObject [(js ''ok'', JBool True)]) 200)"
  using example_origins_distinct
  by (simp add: workerFallback_def Memory_getEndpointByPath_def matchingProject_def
      requestOrigin_def or_else_def arrayIncludes_def startsWith_def substring_def
      applyHeaders_def header_def json_response_def Let_def example_store_def
      example_settings_def DEFAULT_SETTINGS_def example_context_def example_api_v1_def
      example_users_def example_ok_def js_simps)

section \<open>Token service: splitting at dots\<close>

lemma js_split_nonempty: "js_split sep t \<noteq> []"
  by (induction t) (auto split: list.splits)

lemma js_split_no_sep: "sep \<notin> set a \<Longrightarrow> js_split sep a = [a]"
  by (induction a) auto

lemma js_split_append:
  "sep \<notin> set a \<Longrightarrow> js_split sep (a @ sep # rest) = a # js_split sep rest"
  using js_split_nonempty [of sep rest]
  by (induction a) (auto split: list.splits)


lemma js_split_three:
  assumes "sep \<notin> set a" "sep \<notin> set b" "sep \<notin> set c"
  shows "js_split sep (a @ sep # b @ sep # c) = [a, b, c]"
  using assms by (simp add: js_split_append js_split_no_sep)




section \<open>Token service: base64\<close>

lemma b64val_b64char: "n < 64 \<Longrightarrow> b64val (b64char n) = Some n"
  by (auto simp: b64val_def b64char_def)

lemma b64char_not_dot: "b64char n \<noteq> 46"
  by (auto simp: b64char_def)

lemma b64char_not_pad: "b64char n \<noteq> 61"
  by (auto simp: b64char_def)

lemma b64char_not_ws: "\<not> asciiWhitespace (b64char n)"
  by (auto simp: b64char_def asciiWhitespace_def)

lemma b64val_pad: "b64val 61 = None"
  by (simp add: b64val_def)

lemma pad_not_ws: "\<not> asciiWhitespace 61"
  by (simp add: asciiWhitespace_def)

text \<open>
  The encoding is a run of alphabet characters followed by at most two \<open>=\<close>; the run
  decodes to the bytes encoded.
\<close>

lemma b64_encode_shape:
  assumes "list_all (\<lambda>c. c \<le> 255) s"
  shows "\<exists>ns k. b64_encode s = map b64char ns @ replicate k 61 \<and> k \<le> 2 \<and>
           list_all (\<lambda>n. n < 64) ns \<and> (length ns + k) mod 4 = 0 \<and>
           (k = 0 \<or> ns \<noteq> []) \<and> b64_decode ns = s"
  using assms
proof (induction s rule: b64_encode.induct)
  case (1 a b c rest)
  from 1(2) have "list_all (\<lambda>c. c \<le> 255) rest"
    by simp
  from 1(1) [OF this]
  obtain ns k where ih: "b64_encode rest = map b64char ns @ replicate k 61" "k \<le> 2"
      "list_all (\<lambda>n. n < 64) ns" "(length ns + k) mod 4 = 0" "k = 0 \<or> ns \<noteq> []"
      "b64_decode ns = rest"
    by (elim exE conjE) simp
  let ?q = "[a div 4, (a mod 4) * 16 + b div 16, (b mod 16) * 4 + c div 64, c mod 64]"
  from 1(2) have bnd: "a \<le> 255" "b \<le> 255" "c \<le> 255" by auto
  have "b64_encode (a # b # c # rest) = map b64char (?q @ ns) @ replicate k 61"
    using ih(1) by simp
  moreover have "list_all (\<lambda>n. n < 64) (?q @ ns)"
    using ih(3) bnd by auto
  moreover have "(length (?q @ ns) + k) mod 4 = 0"
    using ih(4) by (simp add: mod_Suc)
  moreover have "b64_decode (?q @ ns) = a # b # c # rest"
    using ih(6) bnd by auto
  moreover have "?q @ ns \<noteq> []"
    by simp
  ultimately show ?case
    using ih(2) by (intro exI [of _ "?q @ ns"] exI [of _ k] conjI disjI2)
next
  case (2 a b)
  let ?q = "[a div 4, (a mod 4) * 16 + b div 16, (b mod 16) * 4]"
  from 2 have bnd: "a \<le> 255" "b \<le> 255" by auto
  have "b64_encode [a, b] = map b64char ?q @ replicate 1 61"
    by simp
  moreover have "list_all (\<lambda>n. n < 64) ?q"
    using bnd by auto
  moreover have "b64_decode ?q = [a, b]"
    using bnd by auto
  ultimately show ?case
    by (intro exI [of _ ?q] exI [of _ 1]) simp
next
  case (3 a)
  let ?q = "[a div 4, (a mod 4) * 16]"
  from 3 have bnd: "a \<le> 255" by auto
  have "b64_encode [a] = map b64char ?q @ replicate 2 61"
    by (simp add: numeral_2_eq_2)
  moreover have "list_all (\<lambda>n. n < 64) ?q"
    using bnd by auto
  moreover have "b64_decode ?q = [a]"
    using bnd by auto
  ultimately show ?case
    by (intro exI [of _ ?q] exI [of _ 2]) simp
next
  case 4
  show ?case
    by (intro exI [of _ "[]"] exI [of _ 0]) simp
qed

lemma stripPadding_replicate:
  assumes "k \<le> 2" and "core = [] \<or> last core \<noteq> 61"
  shows "stripPadding (core @ replicate k 61) = core"
proof -
  from assms(1) consider "k = 0" | "k = 1" | "k = 2"
    by linarith
  then show ?thesis
  proof cases
    case 1
    with assms(2) show ?thesis by (auto simp: stripPadding_def)
  next
    case 2
    with assms(2) show ?thesis by (auto simp: stripPadding_def)
  next
    case 3
    then have "replicate k (61::nat) = [61, 61]"
      by (simp add: numeral_2_eq_2)
    then show ?thesis
      by (simp add: stripPadding_def butlast_append)
  qed
qed

lemma last_map_b64char: "ns \<noteq> [] \<Longrightarrow> last (map b64char ns) \<noteq> 61"
  by (simp add: last_map b64char_not_pad)

lemma atob_shape:
  assumes "list_all (\<lambda>n. n < 64) ns" and "k \<le> 2" and "(length ns + k) mod 4 = 0"
  shows "atob (map b64char ns @ replicate k 61) = Some (b64_decode ns)"
proof -
  let ?core = "map b64char ns"
  have ws: "filter (\<lambda>c. \<not> asciiWhitespace c) (?core @ replicate k 61) = ?core @ replicate k 61"
    by (simp add: filter_id_conv b64char_not_ws pad_not_ws)
  have strip: "stripPadding (?core @ replicate k 61) = ?core"
    using assms(2) last_map_b64char [of ns] by (intro stripPadding_replicate) auto
  have len: "length ?core mod 4 \<noteq> 1"
    using assms(2,3) by (simp add: mod_eq_0_iff_dvd) presburger
  have valid: "\<not> list_ex (\<lambda>c. b64val c = None) ?core"
    using assms(1) by (auto simp: list_ex_iff list_all_iff b64val_b64char)
  have vals: "map (\<lambda>c. case b64val c of None \<Rightarrow> 0 | Some v \<Rightarrow> v) ?core = ns"
    using assms(1) by (induction ns) (auto simp: b64val_b64char)
  have "length (?core @ replicate k 61) mod 4 = 0"
    using assms(3) by simp
  then show ?thesis
    unfolding atob_def Let_def ws
    using len valid by (simp add: strip vals del: map_map)
qed

lemma atob_btoa:
  assumes "list_all (\<lambda>c. c \<le> 255) s"
  shows "btoa s = Some (b64_encode s) \<and> atob (b64_encode s) = Some s"
proof -
  from b64_encode_shape [OF assms] obtain ns k where
    "b64_encode s = map b64char ns @ replicate k 61" "k \<le> 2"
    "list_all (\<lambda>n. n < 64) ns" "(length ns + k) mod 4 = 0" "b64_decode ns = s"
    by (elim exE conjE) simp
  with atob_shape [of ns k] assms show ?thesis
    by (simp add: btoa_def)
qed

lemma padBase64_eq: "padBase64 s = s @ replicate ((4 - length s mod 4) mod 4) 61"
proof (induction s rule: padBase64.induct)
  case (1 base64)
  show ?case
  proof (cases "length base64 mod 4 = 0")
    case True
    then show ?thesis by (simp add: padBase64.simps)
  next
    case False
    then have k: "(4 - length base64 mod 4) mod 4 = Suc ((4 - Suc (length base64) mod 4) mod 4)"
      by (simp add: mod_Suc) presburger
    from False 1 have "padBase64 base64 =
        (base64 @ [61]) @ replicate ((4 - Suc (length base64) mod 4) mod 4) 61"
      by (subst padBase64.simps) simp
    with k show ?thesis
      by simp
  qed
qed

lemma replaceAll_url: "replaceAll 47 95 (replaceAll 43 45 s) = map urlChar s"
  by (simp add: replaceAll_def urlChar_def)

lemma replaceAll_back:
  "replaceAll 95 47 (replaceAll 45 43 (map urlChar (map b64char ns))) = map b64char ns"
  by (induction ns) (auto simp: replaceAll_def urlChar_def b64char_def)

lemma urlChar_b64char_not_pad: "urlChar (b64char n) \<noteq> 61"
  by (auto simp: urlChar_def b64char_def)

lemma urlChar_b64char_not_dot: "urlChar (b64char n) \<noteq> 46"
  by (auto simp: urlChar_def b64char_def)

lemma stripTrailingEquals_replicate:
  assumes "xs = [] \<or> last xs \<noteq> 61"
  shows "stripTrailingEquals (xs @ replicate k 61) = xs"
proof -
  have "dropWhile (\<lambda>c. c = 61) (replicate k 61 @ rev xs) = dropWhile (\<lambda>c. c = 61) (rev xs)"
    by (induction k) auto
  moreover have "dropWhile (\<lambda>c. c = 61) (rev xs) = rev xs"
    using assms by (cases xs rule: rev_cases) auto
  ultimately show ?thesis
    by (simp add: stripTrailingEquals_def)
qed

text \<open>
  \<open>base64UrlDecode\<close> inverts \<open>base64UrlEncode\<close> on strings of code units up to 255, and
  the encoding has no dot.
\<close>

lemma base64Url_roundtrip:
  assumes "list_all (\<lambda>c. c \<le> 255) s"
  shows "\<exists>t. base64UrlEncode s = Some t \<and> base64UrlDecode t = Some s \<and> 46 \<notin> set t"
proof -
  from b64_encode_shape [OF assms] obtain ns k where
    shape: "b64_encode s = map b64char ns @ replicate k 61" and k: "k \<le> 2"
    and ns: "list_all (\<lambda>n. n < 64) ns" and len: "(length ns + k) mod 4 = 0"
    and dec: "b64_decode ns = s"
    by (elim exE conjE) simp
  let ?t = "map urlChar (map b64char ns)"
  have last: "?t = [] \<or> last ?t \<noteq> 61"
    by (cases ns rule: rev_cases) (auto simp: urlChar_b64char_not_pad)
  have "map urlChar (b64_encode s) = ?t @ replicate k 61"
    by (simp add: shape urlChar_def)
  then have enc: "base64UrlEncode s = Some ?t"
    using assms stripTrailingEquals_replicate [OF last, of k]
    by (simp add: base64UrlEncode_def btoa_def replaceAll_url del: map_map)
  have "(4 - length (map b64char ns) mod 4) mod 4 = k"
  proof -
    have "(length ns mod 4 + k) mod 4 = 0"
      using len by (simp add: mod_add_left_eq)
    moreover have "length ns mod 4 < 4"
      by simp
    then have "length ns mod 4 = 0 \<or> length ns mod 4 = 1 \<or> length ns mod 4 = 2 \<or>
        length ns mod 4 = 3"
      by linarith
    moreover from k have "k = 0 \<or> k = 1 \<or> k = 2"
      by linarith
    ultimately show ?thesis
      by (elim disjE) simp_all
  qed
  then have "padBase64 (map b64char ns) = map b64char ns @ replicate k 61"
    by (simp add: padBase64_eq)
  then have "base64UrlDecode ?t = Some s"
    using atob_shape [OF ns k len] dec
    by (simp add: base64UrlDecode_def replaceAll_back del: map_map)
  moreover have "46 \<notin> set ?t"
    by (auto simp: urlChar_b64char_not_dot)
  ultimately show ?thesis
    using enc by blast
qed

section \<open>Token service: the signature\<close>

lemma be_bytes_bound: "list_all (\<lambda>b. b \<le> 255) (be_bytes k v)"
proof (induction k)
  case 0
  then show ?case by simp
next
  case (Suc k)
  have "v div 256 ^ k mod 256 < 256"
    by simp
  then have "v div 256 ^ k mod 256 \<le> 255"
    by linarith
  with Suc show ?case by simp
qed

lemma sha256_bound: "list_all (\<lambda>b. b \<le> 255) (sha256 m)"
  unfolding sha256_def
  by (auto split: prod.splits simp: be_bytes_bound simp del: be_bytes.simps)

lemma hmac_sha256_bound: "list_all (\<lambda>b. b \<le> 255) (hmac_sha256 key msg)"
  by (simp add: hmac_sha256_def Let_def sha256_bound)


lemma TextEncoder_encode_empty: "TextEncoder_encode s = [] \<longleftrightarrow> s = []"
  by (cases s) (auto split: list.splits simp: Let_def)

lemma sign_Some:
  assumes "secret \<noteq> []"
  shows "\<exists>s. sign message secret = Some s \<and> 46 \<notin> set s"
proof -
  from base64Url_roundtrip [OF hmac_sha256_bound]
  obtain t where "base64UrlEncode
      (hmac_sha256 (TextEncoder_encode secret) (TextEncoder_encode message)) = Some t"
    and "46 \<notin> set t"
    by blast
  with assms show ?thesis
    by (simp add: sign_def TextEncoder_encode_empty Let_def)
qed

lemma sign_None: "sign message [] = None"
  by (simp add: sign_def)


section \<open>Token service: numbers\<close>

lemma bitLength_le: "bitLength n \<le> k \<longleftrightarrow> n < 2 ^ k"
proof (induction n arbitrary: k rule: bitLength.induct)
  case (1 n)
  show ?case
  proof (cases "n = 0")
    case True
    then show ?thesis
      by (simp add: bitLength.simps)
  next
    case False
    show ?thesis
    proof (cases k)
      case 0
      with False show ?thesis
        by (simp add: bitLength.simps [of n])
    next
      case (Suc j)
      from 1 [OF False, of j] have "bitLength (n div 2) \<le> j \<longleftrightarrow> n div 2 < 2 ^ j" .
      moreover have "n div 2 < 2 ^ j \<longleftrightarrow> n < 2 ^ Suc j"
        by auto
      ultimately show ?thesis
        using False Suc by (simp add: bitLength.simps [of n])
    qed
  qed
qed

text \<open>An integer up to \<open>2^53\<close> in absolute value is a Number: rounding leaves it.\<close>

lemma Number_nearest_exact:
  assumes "\<bar>x\<bar> \<le> 9007199254740992"
  shows "Number_nearest x = x"
proof (cases "\<bar>x\<bar> < 9007199254740992")
  case True
  then have "nat \<bar>x\<bar> < 2 ^ 53"
    by simp
  then have "bitLength (nat \<bar>x\<bar>) \<le> 53"
    by (simp only: bitLength_le)
  then have "bitLength (nat \<bar>x\<bar>) - 53 = 0"
    by simp
  then show ?thesis
    by (simp add: Number_nearest_def Let_def mult_sgn_abs)
next
  case False
  with assms have a: "\<bar>x\<bar> = 9007199254740992"
    by simp
  then have "nat \<bar>x\<bar> < 2 ^ 54" and "\<not> nat \<bar>x\<bar> < 2 ^ 53"
    by simp_all
  with bitLength_le [of "nat \<bar>x\<bar>" 54] bitLength_le [of "nat \<bar>x\<bar>" 53]
  have "bitLength (nat \<bar>x\<bar>) \<le> 54" and "\<not> bitLength (nat \<bar>x\<bar>) \<le> 53"
    by blast+
  then have e: "bitLength (nat \<bar>x\<bar>) - 53 = 1"
    by simp
  have "sgn x * \<bar>x\<bar> = x"
    by (rule mult_sgn_abs)
  with a have "sgn x * 9007199254740992 = x"
    by simp
  then show ?thesis
    unfolding Number_nearest_def Let_def e by (simp add: a)
qed

lemma Number_add_exact: "\<bar>a + b\<bar> \<le> 9007199254740992 \<Longrightarrow> Number_add a b = a + b"
  by (simp add: Number_add_def Number_nearest_exact)

text \<open>
  Above \<open>2^53\<close> a sum is rounded: \<open>1001 + 2^53\<close> lies between the Numbers \<open>2^53 + 1000\<close>
  and \<open>2^53 + 1002\<close>, and the first has the even significand.
\<close>

lemma Number_add_rounded: "Number_add 1001 9007199254740992 = 9007199254741992"
proof -
  have "nat \<bar>9007199254741993 :: int\<bar> < 2 ^ 54"
    and "\<not> nat \<bar>9007199254741993 :: int\<bar> < 2 ^ 53"
    by simp_all
  with bitLength_le [of "nat \<bar>9007199254741993 :: int\<bar>" 54]
    bitLength_le [of "nat \<bar>9007199254741993 :: int\<bar>" 53]
  have "bitLength (nat \<bar>9007199254741993 :: int\<bar>) \<le> 54"
    and "\<not> bitLength (nat \<bar>9007199254741993 :: int\<bar>) \<le> 53"
    by blast+
  then have e: "bitLength (nat \<bar>9007199254741993 :: int\<bar>) - 53 = 1"
    by simp
  have "Number_nearest 9007199254741993 = 9007199254741992"
    unfolding Number_nearest_def Let_def e by simp
  then show ?thesis
    by (simp add: Number_add_def)
qed

section \<open>Token service: the JSON text of the payload\<close>

lemma decimal_bound: "list_all (\<lambda>c. c \<le> 255) (decimal n)"
proof (induction n rule: decimal.induct)
  case (1 n)
  show ?case
  proof (cases "n < 10")
    case True
    then show ?thesis by (simp add: decimal.simps)
  next
    case False
    have "n mod 10 < 10" by simp
    then have "48 + n mod 10 \<le> 255" by linarith
    with False 1 show ?thesis
      by (subst decimal.simps) simp
  qed
qed

lemma JSON_integer_bound: "list_all (\<lambda>c. c \<le> 255) (JSON_integer i)"
  by (simp add: JSON_integer_def decimal_bound)

lemma hexDigit_bound: "d < 16 \<Longrightarrow> hexDigit d \<le> 255"
  by (simp add: hexDigit_def)

lemma unicodeEscape_bound: "list_all (\<lambda>c. c \<le> 255) (unicodeEscape c)"
  by (simp add: unicodeEscape_def hexDigit_bound)

lemma JSON_escape_Cons:
  assumes "c \<le> 255"
  shows "JSON_escape (c # cs) = escapeUnit c @ JSON_escape cs"
proof -
  from assms have hi: "(0xD800 \<le> c \<and> c < 0xDC00) = False"
    and lo: "(0xDC00 \<le> c \<and> c < 0xE000) = False"
    by simp_all
  have "JSON_escape (c # cs) =
     (if c = 8 then [92, 98] @ JSON_escape cs
      else if c = 9 then [92, 116] @ JSON_escape cs
      else if c = 10 then [92, 110] @ JSON_escape cs
      else if c = 12 then [92, 102] @ JSON_escape cs
      else if c = 13 then [92, 114] @ JSON_escape cs
      else if c = 34 then [92, 34] @ JSON_escape cs
      else if c = 92 then [92, 92] @ JSON_escape cs
      else if c < 32 then unicodeEscape c @ JSON_escape cs
      else [c] @ JSON_escape cs)"
    by (subst JSON_escape.simps(2)) (simp only: hi lo if_False append_Cons append_Nil)
  also have "\<dots> = escapeUnit c @ JSON_escape cs"
    unfolding escapeUnit_def by (simp only: if_distrib [of "\<lambda>x. x @ JSON_escape cs"])
  finally show ?thesis .
qed

lemma escapeUnit_bound: "c \<le> 255 \<Longrightarrow> list_all (\<lambda>c. c \<le> 255) (escapeUnit c)"
  by (simp add: escapeUnit_def unicodeEscape_bound)

lemma JSON_escape_bound:
  "list_all (\<lambda>c. c \<le> 255) s \<Longrightarrow> list_all (\<lambda>c. c \<le> 255) (JSON_escape s)"
proof (induction s)
  case Nil
  then show ?case by simp
next
  case (Cons c cs)
  then have "c \<le> 255" and "list_all (\<lambda>c. c \<le> 255) (JSON_escape cs)"
    by simp_all
  then show ?case
    by (simp only: JSON_escape_Cons list_all_append escapeUnit_bound)
qed

lemma JSON_quote_bound:
  "list_all (\<lambda>c. c \<le> 255) s \<Longrightarrow> list_all (\<lambda>c. c \<le> 255) (JSON_quote s)"
  by (simp add: JSON_quote_def JSON_escape_bound)

lemma js_bound: "list_all (\<lambda>c. c \<le> 255) (js s)"
proof (induction s)
  case Nil
  then show ?case by (simp add: js_def)
next
  case (Cons a s)
  have "(of_char a :: nat) mod 256 = of_char a"
    by simp
  with mod_less_divisor [of 256 "of_char a :: nat"] have "(of_char a :: nat) < 256"
    by simp
  then have "(of_char a :: nat) \<le> 255"
    by linarith
  with Cons show ?case
    by (simp add: js_def)
qed

lemma JSON_stringify_header_bound: "list_all (\<lambda>c. c \<le> 255) JSON_stringify_header"
  by (simp add: JSON_stringify_header_def JSON_quote_bound js_bound)

lemma payloadText_bound:
  "list_all (\<lambda>c. c \<le> 255) (jwt_sub payload) \<Longrightarrow>
     list_all (\<lambda>c. c \<le> 255) (payloadText payload)"
  by (simp add: payloadText_def JSON_quote_bound JSON_integer_bound js_bound)

lemma JSON_stringify_payload_bound:
  assumes "list_all (\<lambda>c. c \<le> 255) (jwt_sub payload)"
    and "list_all (\<lambda>c. c \<le> 255) (JSON_number P (jwt_iat payload))"
    and "list_all (\<lambda>c. c \<le> 255) (JSON_number P (jwt_exp payload))"
  shows "list_all (\<lambda>c. c \<le> 255) (JSON_stringify_payload P payload)"
  using assms by (simp add: JSON_stringify_payload_def JSON_quote_bound js_bound)

text \<open>The JSON text of a payload whose numbers are at most \<open>2^53\<close> in absolute value.\<close>

lemma JSON_stringify_payload_exact:
  assumes "\<bar>jwt_iat payload\<bar> \<le> 9007199254740992"
    and "\<bar>jwt_exp payload\<bar> \<le> 9007199254740992"
  shows "JSON_stringify_payload P payload = payloadText payload"
  using assms by (simp add: JSON_stringify_payload_def payloadText_def JSON_number_def)

section \<open>Token service: issuing and verifying\<close>

lemma js_dot: "js ''.'' = [46]"
  by (simp add: js_simps)

text \<open>
  The token \<open>createToken\<close> gives when the JSON text of the payload has code units up to
  255 only and the secret is not empty: three parts without a dot, the third the
  signature of the first two, the second decoding to the JSON text of the payload.
\<close>

lemma createToken_parts:
  assumes "list_all (\<lambda>c. c \<le> 255)
      (JSON_stringify_payload P (issuedPayload nowMs username expiresIn))"
    and "secret \<noteq> []"
  shows "\<exists>h p s. createToken P nowMs username secret expiresIn = Some (h @ 46 # p @ 46 # s) \<and>
           sign (h @ 46 # p) secret = Some s \<and>
           base64UrlDecode p =
             Some (JSON_stringify_payload P (issuedPayload nowMs username expiresIn)) \<and>
           46 \<notin> set h \<and> 46 \<notin> set p \<and> 46 \<notin> set s"
proof -
  let ?payload = "issuedPayload nowMs username expiresIn"
  from base64Url_roundtrip [OF JSON_stringify_header_bound]
  obtain h where h: "base64UrlEncode JSON_stringify_header = Some h" "46 \<notin> set h"
    by blast
  from base64Url_roundtrip [OF assms(1)]
  obtain p where p: "base64UrlEncode (JSON_stringify_payload P ?payload) = Some p"
      "base64UrlDecode p = Some (JSON_stringify_payload P ?payload)" "46 \<notin> set p"
    by blast
  from sign_Some [OF assms(2), of "h @ 46 # p"]
  obtain s where s: "sign (h @ 46 # p) secret = Some s" "46 \<notin> set s"
    by blast
  have "createToken P nowMs username secret expiresIn = Some (h @ 46 # p @ 46 # s)"
    using h(1) p(1) s(1)
    by (simp add: createToken_def Let_def js_dot issuedPayload_def)
  with h p s show ?thesis
    by blast
qed



lemma verifyToken_Some_iff:
  "verifyToken P nowMs token secret = Some payload \<longleftrightarrow>
     (\<exists>h p s d. js_split 46 token = [h, p, s] \<and> sign (h @ 46 # p) secret = Some s \<and>
        base64UrlDecode p = Some d \<and> JSON_parse P d = Some payload \<and>
        expired P payload (nowMs div 1000) = Some False)"
  unfolding verifyToken_def js_dot
  by (auto split: list.splits option.splits bool.splits if_splits)

lemma verifyToken_parts:
  assumes "46 \<notin> set h" "46 \<notin> set p" "46 \<notin> set s"
  shows "verifyToken P nowMs (h @ 46 # p @ 46 # s) secret =
     (case sign (h @ 46 # p) secret of
        None \<Rightarrow> None
      | Some expectedSignature \<Rightarrow>
          if s \<noteq> expectedSignature then None
          else
            (case base64UrlDecode p of
               None \<Rightarrow> None
             | Some decoded \<Rightarrow>
                 (case JSON_parse P decoded of
                    None \<Rightarrow> None
                  | Some payload \<Rightarrow>
                      (case expired P payload (nowMs div 1000) of
                         None \<Rightarrow> None
                       | Some True \<Rightarrow> None
                       | Some False \<Rightarrow> Some payload))))"
  using js_split_three [OF assms]
  by (simp add: verifyToken_def js_dot)

lemma payload_keys_distinct:
  "js ''sub'' \<noteq> js ''exp''" "js ''iat'' \<noteq> js ''exp''"
  by (simp_all add: js_simps)

lemma expired_payload_value:
  "expired P (payload_value payload) now = Some (jwt_exp payload < now)"
  using payload_keys_distinct
  by (simp add: expired_def payload_value_def ToNumber_def num_less_def)

lemma expired_number:
  "map_of members (js ''exp'') = Some (JNumber (Finite e)) \<Longrightarrow>
     expired P (JObject members) now = Some (e < real_of_int now)"
  by (simp add: expired_def ToNumber_def num_less_def)


text \<open>
  A lifetime that takes the expiry above \<open>2^53\<close>: issued at the time 1001 s with the
  lifetime \<open>2^53\<close>, the token carries the expiry \<open>2^53 + 1000\<close>, which is not the issue
  time plus the lifetime.
\<close>

lemma createToken_large_lifetime:
  assumes "list_all (\<lambda>c. c \<le> 255) username" and "secret \<noteq> []"
    and "list_all (\<lambda>c. c \<le> 255) (Number_toString_other P 9007199254741992)"
  shows "\<exists>h p s. createToken P 1001000 username secret (Some 9007199254740992) =
             Some (h @ 46 # p @ 46 # s) \<and>
           base64UrlDecode p =
             Some (JSON_stringify_payload P
                \<lparr> jwt_sub = username, jwt_exp = 9007199254741992, jwt_iat = 1001 \<rparr>) \<and>
           (9007199254741992 :: int) \<noteq> 1001 + 9007199254740992"
proof -
  have issued: "issuedPayload 1001000 username (Some 9007199254740992) =
      \<lparr> jwt_sub = username, jwt_exp = 9007199254741992, jwt_iat = 1001 \<rparr>"
    by (simp add: issuedPayload_def overlay_def Number_add_rounded)
  have "list_all (\<lambda>c. c \<le> 255)
      (JSON_stringify_payload P (issuedPayload 1001000 username (Some 9007199254740992)))"
    unfolding issued using assms(1,3)
    by (intro JSON_stringify_payload_bound) (simp_all add: JSON_number_def JSON_integer_bound)
  from createToken_parts [OF this assms(2)] show ?thesis
    unfolding issued by auto
qed

section \<open>Token service: an altered token\<close>







lemma example_issued: "issuedPayload 1000000 (js ''admin'') (Some 60) = example_payload"
  by (simp add: issuedPayload_def example_payload_def overlay_def Number_add_exact)

lemma example_text: "JSON_stringify_payload P example_payload = payloadText example_payload"
  by (rule JSON_stringify_payload_exact) (simp_all add: example_payload_def)

lemma example_secret: "js ''k'' \<noteq> []" "js ''k'' @ [0] \<noteq> js ''k''"
  by (simp_all add: js_simps)

section \<open>Token round trip\<close>


lemma example_issued_token:
  "\<exists>h p s. createToken example_platform 1000000 (js ''admin'') (js ''k'') (Some 60) =
         Some (h @ 46 # p @ 46 # s) \<and>
       sign (h @ 46 # p) (js ''k'') = Some s \<and>
       46 \<notin> set h \<and> 46 \<notin> set p \<and> 46 \<notin> set s \<and>
       base64UrlDecode p = Some (payloadText example_payload) \<and>
       (\<forall>later secret'.
          verifyToken example_platform later (h @ 46 # p @ 46 # s) secret' =
            (if sign (h @ 46 # p) secret' = Some s \<and> \<not> 1060 < later div 1000
             then Some (payload_value example_payload) else None))"
proof -
  have latin: "list_all (\<lambda>c. c \<le> 255)
      (JSON_stringify_payload example_platform
         (issuedPayload 1000000 (js ''admin'') (Some 60)))"
    unfolding example_issued example_text
    by (intro payloadText_bound) (simp add: example_payload_def js_bound)
  from createToken_parts [OF latin example_secret(1)]
  obtain h p s where
    tok: "createToken example_platform 1000000 (js ''admin'') (js ''k'') (Some 60) =
        Some (h @ 46 # p @ 46 # s)"
    and sg: "sign (h @ 46 # p) (js ''k'') = Some s"
    and dec: "base64UrlDecode p = Some (payloadText example_payload)"
    and nd: "46 \<notin> set h" "46 \<notin> set p" "46 \<notin> set s"
    unfolding example_issued example_text by blast
  have "verifyToken example_platform later (h @ 46 # p @ 46 # s) secret' =
            (if sign (h @ 46 # p) secret' = Some s \<and> \<not> 1060 < later div 1000
             then Some (payload_value example_payload) else None)" for later secret'
    unfolding verifyToken_parts [OF nd]
    by (auto simp: dec example_platform_def expired_payload_value example_payload_def
        split: option.splits)
  with tok sg dec nd show ?thesis
    by blast
qed



text \<open>
  The hypotheses on the subject and on the secret are needed: \<open>btoa\<close> rejects the JSON
  text of a subject with a code unit above 255, and \<open>importKey\<close> rejects the empty secret,
  so \<open>createToken\<close> issues no token.
\<close>

lemma createToken_wide_subject:
  "createToken P 1000000 [0x7BA1] (js ''k'') (Some 60) = None"
proof -
  have "\<not> list_all (\<lambda>c. c \<le> 255)
      (JSON_stringify_payload P (issuedPayload 1000000 [0x7BA1] (Some 60)))"
    by (simp add: JSON_stringify_payload_def JSON_quote_def issuedPayload_def)
  then have "base64UrlEncode
      (JSON_stringify_payload P (issuedPayload 1000000 [0x7BA1] (Some 60))) = None"
    by (simp add: base64UrlEncode_def btoa_def)
  then show ?thesis
    by (simp add: createToken_def Let_def issuedPayload_def split: option.splits)
qed

lemma createToken_empty_secret: "createToken P nowMs username [] expiresIn = None"
  by (simp add: createToken_def Let_def sign_None split: option.splits)

section \<open>Verification never throws and guards every failure\<close>

text \<open>
  Claim C4. \<open>verifyToken\<close> always returns: every exception is caught and gives invalid.
  It returns a payload exactly when the token splits at its dots into three parts, the
  signature recomputed over the first two equals the third, the second part decodes,
  the decoded text parses to that payload, and \<open>payload.exp < now\<close> is false. So it
  gives invalid when the parts are not three, when the signatures differ, when
  decoding or parsing fails, and when \<open>exp\<close> is less than the current time; for a
  numeric \<open>exp\<close> that comparison is the numeric one.
\<close>

theorem verifyToken_guards:
  "(verifyToken P nowMs token secret = Some payload \<longleftrightarrow>
      (\<exists>headerB64 payloadB64 signatureB64 decoded.
         js_split 46 token = [headerB64, payloadB64, signatureB64] \<and>
         sign (headerB64 @ js ''.'' @ payloadB64) secret = Some signatureB64 \<and>
         base64UrlDecode payloadB64 = Some decoded \<and>
         JSON_parse P decoded = Some payload \<and>
         expired P payload (nowMs div 1000) = Some False))
   \<and> (length (js_split 46 token) \<noteq> 3 \<longrightarrow> verifyToken P nowMs token secret = None)
   \<and> (js_split 46 token = [h, p, s] \<longrightarrow>
        (sign (h @ js ''.'' @ p) secret \<noteq> Some s \<longrightarrow>
           verifyToken P nowMs token secret = None) \<and>
        (base64UrlDecode p = None \<longrightarrow> verifyToken P nowMs token secret = None) \<and>
        (base64UrlDecode p = Some d \<and> JSON_parse P d = None \<longrightarrow>
           verifyToken P nowMs token secret = None) \<and>
        (base64UrlDecode p = Some d \<and> JSON_parse P d = Some v \<and>
         expired P v (nowMs div 1000) \<noteq> Some False \<longrightarrow>
           verifyToken P nowMs token secret = None))
   \<and> (map_of members (js ''exp'') = Some (JNumber (Finite e)) \<longrightarrow>
        expired P (JObject members) (nowMs div 1000) =
          Some (e < real_of_int (nowMs div 1000)))"
proof -
  have iff: "verifyToken P nowMs token secret = Some payload \<longleftrightarrow>
      (\<exists>headerB64 payloadB64 signatureB64 decoded.
         js_split 46 token = [headerB64, payloadB64, signatureB64] \<and>
         sign (headerB64 @ js ''.'' @ payloadB64) secret = Some signatureB64 \<and>
         base64UrlDecode payloadB64 = Some decoded \<and>
         JSON_parse P decoded = Some payload \<and>
         expired P payload (nowMs div 1000) = Some False)"
    unfolding js_dot by (simp add: verifyToken_Some_iff)
  have none: "verifyToken P nowMs token secret = None"
    if "\<And>w. verifyToken P nowMs token secret \<noteq> Some w"
    using that by (cases "verifyToken P nowMs token secret") auto
  have parts: "length (js_split 46 token) \<noteq> 3 \<longrightarrow> verifyToken P nowMs token secret = None"
    by (auto intro!: none simp: verifyToken_Some_iff)
  have guards: "js_split 46 token = [h, p, s] \<longrightarrow>
        (sign (h @ js ''.'' @ p) secret \<noteq> Some s \<longrightarrow>
           verifyToken P nowMs token secret = None) \<and>
        (base64UrlDecode p = None \<longrightarrow> verifyToken P nowMs token secret = None) \<and>
        (base64UrlDecode p = Some d \<and> JSON_parse P d = None \<longrightarrow>
           verifyToken P nowMs token secret = None) \<and>
        (base64UrlDecode p = Some d \<and> JSON_parse P d = Some v \<and>
         expired P v (nowMs div 1000) \<noteq> Some False \<longrightarrow>
           verifyToken P nowMs token secret = None)"
    unfolding js_dot by (auto intro!: none simp: verifyToken_Some_iff)
  have numeric: "map_of members (js ''exp'') = Some (JNumber (Finite e)) \<longrightarrow>
        expired P (JObject members) (nowMs div 1000) =
          Some (e < real_of_int (nowMs div 1000))"
    by (simp add: expired_number)
  from iff parts guards numeric show ?thesis
    by blast
qed

theorem verifyToken_guards_witness:
  "length (js_split 46 (js ''a.b'')) \<noteq> 3
   \<and> verifyToken example_platform 1000000 (js ''a.b'') (js ''k'') = None
   \<and> createToken example_platform 1000000 (js ''admin'') (js ''k'') (Some 60) \<noteq> None
   \<and> expired example_platform (payload_value example_payload) 1061 = Some True
   \<and> verifyToken example_platform 1061000
       (the (createToken example_platform 1000000 (js ''admin'') (js ''k'') (Some 60)))
       (js ''k'') = None
   \<and> expired example_platform (payload_value example_payload) 1000 = Some False
   \<and> verifyToken example_platform 1000000
       (the (createToken example_platform 1000000 (js ''admin'') (js ''k'') (Some 60)))
       (js ''k'') =
       Some (payload_value example_payload)"
proof -
  have two: "length (js_split 46 (js ''a.b'')) \<noteq> 3"
    by (simp add: js_simps)
  with verifyToken_guards [of example_platform 1000000 "js ''a.b''" "js ''k''"]
  have short: "verifyToken example_platform 1000000 (js ''a.b'') (js ''k'') = None"
    by blast
  from example_issued_token obtain h p s where
    tok: "createToken example_platform 1000000 (js ''admin'') (js ''k'') (Some 60) =
        Some (h @ 46 # p @ 46 # s)"
    and sg: "sign (h @ 46 # p) (js ''k'') = Some s"
    and nd: "46 \<notin> set h" "46 \<notin> set p" "46 \<notin> set s"
    and dec: "base64UrlDecode p = Some (payloadText example_payload)"
    by blast
  have split: "js_split 46 (h @ 46 # p @ 46 # s) = [h, p, s]"
    using nd by (rule js_split_three)
  have parse: "JSON_parse example_platform (payloadText example_payload) =
      Some (payload_value example_payload)"
    by (simp add: example_platform_def)
  have late: "expired example_platform (payload_value example_payload) (1061000 div 1000) =
      Some True"
    and early: "expired example_platform (payload_value example_payload) (1000000 div 1000) =
      Some False"
    by (simp_all add: expired_payload_value example_payload_def)
  from verifyToken_guards [of example_platform 1061000 "h @ 46 # p @ 46 # s" "js ''k''"
      _ h p s "payloadText example_payload" "payload_value example_payload"]
    split dec parse late
  have expired: "verifyToken example_platform 1061000 (h @ 46 # p @ 46 # s) (js ''k'') = None"
    by simp
  have "sign (h @ js ''.'' @ p) (js ''k'') = Some s"
    using sg by (simp add: js_dot)
  with verifyToken_guards [of example_platform 1000000 "h @ 46 # p @ 46 # s" "js ''k''"
      "payload_value example_payload"]
    split dec parse early
  have valid: "verifyToken example_platform 1000000 (h @ 46 # p @ 46 # s) (js ''k'') =
      Some (payload_value example_payload)"
    by blast
  from late early have "expired example_platform (payload_value example_payload) 1061 = Some True"
    and "expired example_platform (payload_value example_payload) 1000 = Some False"
    by simp_all
  with two short tok expired valid show ?thesis
    by simp
qed

end
